theory Spec2Isabelle
  imports Complex_Main "HOL-Library.Word"
begin

section \<open>Strings of the browser runtime\<close>

text \<open>
  A JavaScript string is a sequence of UTF-16 code units. The literals of
  \<^verbatim>\<open>src/App.tsx\<close> that are plain ASCII are written through \<open>js\<close>; the
  Bulgarian literals are given by their code units, each with the source line
  it is taken from.
\<close>

type_synonym code_unit = "16 word"

type_synonym jsstring = "code_unit list"

definition js :: "string \<Rightarrow> jsstring" where
  "js s = map of_char s"

text \<open>
  \<^verbatim>\<open>String.prototype.trim\<close> removes the WhiteSpace and LineTerminator
  code points from both ends: TAB, LF, VT, FF, CR, SP, NBSP, U+1680,
  U+2000 .. U+200A, U+2028, U+2029, U+202F, U+205F, U+3000 and U+FEFF.
\<close>

definition is_white_space :: "code_unit \<Rightarrow> bool" where
  "is_white_space c \<longleftrightarrow>
     c \<in> set [0x0009, 0x000A, 0x000B, 0x000C, 0x000D, 0x0020, 0x00A0, 0x1680,
              0x2000, 0x2001, 0x2002, 0x2003, 0x2004, 0x2005, 0x2006, 0x2007,
              0x2008, 0x2009, 0x200A, 0x2028, 0x2029, 0x202F, 0x205F, 0x3000,
              0xFEFF]"

definition trim :: "jsstring \<Rightarrow> jsstring" where
  "trim s = rev (dropWhile is_white_space (rev (dropWhile is_white_space s)))"

text \<open>\<^verbatim>\<open>String.prototype.includes\<close>: the argument occurs as a contiguous run.\<close>

fun includes_str :: "jsstring \<Rightarrow> jsstring \<Rightarrow> bool" where
  "includes_str [] p = (p = [])"
| "includes_str (c # cs) p = (take (length p) (c # cs) = p \<or> includes_str cs p)"

text \<open>The decimal rendering of a non-negative integer, as a template literal prints it.\<close>

fun decimal :: "nat \<Rightarrow> jsstring" where
  "decimal n =
     (if n < 10 then [of_nat (48 + n)]
      else decimal (n div 10) @ [of_nat (48 + n mod 10)])"

declare decimal.simps [simp del]

subsection \<open>The literals of the source\<close>

text \<open>Line 89: the history could not be loaded, please try again.\<close>

definition TEXT_HISTORY_ERROR :: jsstring where
  "TEXT_HISTORY_ERROR =
     [0x0413, 0x0440, 0x0435, 0x0448, 0x043A, 0x0430, 0x0020, 0x043F, 0x0440, 0x0438,
      0x0020, 0x0437, 0x0430, 0x0440, 0x0435, 0x0436, 0x0434, 0x0430, 0x043D, 0x0435,
      0x0020, 0x043D, 0x0430, 0x0020, 0x0438, 0x0441, 0x0442, 0x043E, 0x0440, 0x0438,
      0x044F, 0x0442, 0x0430, 0x002E, 0x0020, 0x041C, 0x043E, 0x043B, 0x044F, 0x002C,
      0x0020, 0x043E, 0x043F, 0x0438, 0x0442, 0x0430, 0x0439, 0x0442, 0x0435, 0x0020,
      0x043E, 0x0442, 0x043D, 0x043E, 0x0432, 0x043E, 0x002E]"

text \<open>Line 107: please enter your full name.\<close>

definition TEXT_ENTER_FULL_NAME :: jsstring where
  "TEXT_ENTER_FULL_NAME =
     [0x041C, 0x043E, 0x043B, 0x044F, 0x002C, 0x0020, 0x0432, 0x044A, 0x0432, 0x0435,
      0x0434, 0x0435, 0x0442, 0x0435, 0x0020, 0x043F, 0x044A, 0x043B, 0x043D, 0x043E,
      0x0442, 0x043E, 0x0020, 0x0441, 0x0438, 0x0020, 0x0438, 0x043C, 0x0435, 0x002E]"

text \<open>Line 112: please enter your employee number.\<close>

definition TEXT_ENTER_EMPLOYEE_ID :: jsstring where
  "TEXT_ENTER_EMPLOYEE_ID =
     [0x041C, 0x043E, 0x043B, 0x044F, 0x002C, 0x0020, 0x0432, 0x044A, 0x0432, 0x0435,
      0x0434, 0x0435, 0x0442, 0x0435, 0x0020, 0x0441, 0x043B, 0x0443, 0x0436, 0x0435,
      0x0431, 0x043D, 0x0438, 0x044F, 0x0020, 0x0441, 0x0438, 0x0020, 0x043D, 0x043E,
      0x043C, 0x0435, 0x0440, 0x002E]"

text \<open>Line 123: the data was saved.\<close>

definition TEXT_SAVED :: jsstring where
  "TEXT_SAVED =
     [0x0414, 0x0430, 0x043D, 0x043D, 0x0438, 0x0442, 0x0435, 0x0020, 0x0441, 0x0430,
      0x0020, 0x0437, 0x0430, 0x043F, 0x0430, 0x0437, 0x0435, 0x043D, 0x0438, 0x0020,
      0x0443, 0x0441, 0x043F, 0x0435, 0x0448, 0x043D, 0x043E, 0x0021]"

text \<open>Lines 136 and 175: invalid file format, followed by the allowed formats.\<close>

definition TEXT_INVALID_FORMAT :: jsstring where
  "TEXT_INVALID_FORMAT =
     [0x041D, 0x0435, 0x0432, 0x0430, 0x043B, 0x0438, 0x0434, 0x0435, 0x043D, 0x0020,
      0x0444, 0x043E, 0x0440, 0x043C, 0x0430, 0x0442, 0x0020, 0x043D, 0x0430, 0x0020,
      0x0444, 0x0430, 0x0439, 0x043B, 0x0430, 0x002E, 0x0020, 0x041F, 0x043E, 0x0437,
      0x0432, 0x043E, 0x043B, 0x0435, 0x043D, 0x0438, 0x0020, 0x0441, 0x0430, 0x003A,
      0x0020, 0x004A, 0x0050, 0x0047, 0x002C, 0x0020, 0x004A, 0x0050, 0x0045, 0x0047,
      0x002C, 0x0020, 0x0050, 0x004E, 0x0047, 0x002C, 0x0020, 0x0057, 0x0045, 0x0042,
      0x0050, 0x002C, 0x0020, 0x0047, 0x0049, 0x0046, 0x002E]"

text \<open>Line 157: first enter and save your data in the identification section.\<close>

definition TEXT_IDENTITY_REQUIRED :: jsstring where
  "TEXT_IDENTITY_REQUIRED =
     [0x041C, 0x043E, 0x043B, 0x044F, 0x002C, 0x0020, 0x043F, 0x044A, 0x0440, 0x0432,
      0x043E, 0x0020, 0x0432, 0x044A, 0x0432, 0x0435, 0x0434, 0x0435, 0x0442, 0x0435,
      0x0020, 0x0438, 0x0020, 0x0437, 0x0430, 0x043F, 0x0430, 0x0437, 0x0435, 0x0442,
      0x0435, 0x0020, 0x0432, 0x0430, 0x0448, 0x0438, 0x0442, 0x0435, 0x0020, 0x0434,
      0x0430, 0x043D, 0x043D, 0x0438, 0x0020, 0x0432, 0x0020, 0x0441, 0x0435, 0x043A,
      0x0446, 0x0438, 0x044F, 0x0020, 0x0022, 0x0418, 0x0434, 0x0435, 0x043D, 0x0442,
      0x0438, 0x0444, 0x0438, 0x043A, 0x0430, 0x0446, 0x0438, 0x044F, 0x0022, 0x002E]"

text \<open>Line 166: upload a picture of the receipt or enter a description of the expense.\<close>

definition TEXT_RECEIPT_OR_DESCRIPTION :: jsstring where
  "TEXT_RECEIPT_OR_DESCRIPTION =
     [0x041C, 0x043E, 0x043B, 0x044F, 0x002C, 0x0020, 0x043A, 0x0430, 0x0447, 0x0435,
      0x0442, 0x0435, 0x0020, 0x0441, 0x043D, 0x0438, 0x043C, 0x043A, 0x0430, 0x0020,
      0x043D, 0x0430, 0x0020, 0x043A, 0x0430, 0x0441, 0x043E, 0x0432, 0x0430, 0x0020,
      0x0431, 0x0435, 0x043B, 0x0435, 0x0436, 0x043A, 0x0430, 0x0020, 0x0438, 0x043B,
      0x0438, 0x0020, 0x0432, 0x044A, 0x0432, 0x0435, 0x0434, 0x0435, 0x0442, 0x0435,
      0x0020, 0x043E, 0x043F, 0x0438, 0x0441, 0x0430, 0x043D, 0x0438, 0x0435, 0x0020,
      0x043D, 0x0430, 0x0020, 0x0440, 0x0430, 0x0437, 0x0445, 0x043E, 0x0434, 0x0430,
      0x002E]"

text \<open>Line 226: the expense was processed, before the status is appended.\<close>

definition TEXT_PROCESSED_PREFIX :: jsstring where
  "TEXT_PROCESSED_PREFIX =
     [0x0420, 0x0430, 0x0437, 0x0445, 0x043E, 0x0434, 0x044A, 0x0442, 0x0020, 0x0435,
      0x0020, 0x043E, 0x0431, 0x0440, 0x0430, 0x0431, 0x043E, 0x0442, 0x0435, 0x043D,
      0x0021, 0x0020, 0x0421, 0x0442, 0x0430, 0x0442, 0x0443, 0x0441, 0x003A, 0x0020]"

text \<open>Line 231: the expense was sent for processing.\<close>

definition TEXT_SENT :: jsstring where
  "TEXT_SENT =
     [0x0420, 0x0430, 0x0437, 0x0445, 0x043E, 0x0434, 0x044A, 0x0442, 0x0020, 0x0435,
      0x0020, 0x0438, 0x0437, 0x043F, 0x0440, 0x0430, 0x0442, 0x0435, 0x043D, 0x0020,
      0x0443, 0x0441, 0x043F, 0x0435, 0x0448, 0x043D, 0x043E, 0x0020, 0x0437, 0x0430,
      0x0020, 0x043E, 0x0431, 0x0440, 0x0430, 0x0431, 0x043E, 0x0442, 0x043A, 0x0430,
      0x0021]"

text \<open>Line 244: error while sending the expense, before the detail is appended.\<close>

definition TEXT_SUBMIT_ERROR_PREFIX :: jsstring where
  "TEXT_SUBMIT_ERROR_PREFIX =
     [0x0413, 0x0440, 0x0435, 0x0448, 0x043A, 0x0430, 0x0020, 0x043F, 0x0440, 0x0438,
      0x0020, 0x0438, 0x0437, 0x043F, 0x0440, 0x0430, 0x0449, 0x0430, 0x043D, 0x0435,
      0x0020, 0x043D, 0x0430, 0x0020, 0x0440, 0x0430, 0x0437, 0x0445, 0x043E, 0x0434,
      0x0430, 0x003A, 0x0020]"

text \<open>Line 244: the fallback detail, please try again.\<close>

definition TEXT_TRY_AGAIN :: jsstring where
  "TEXT_TRY_AGAIN =
     [0x041C, 0x043E, 0x043B, 0x044F, 0x002C, 0x0020, 0x043E, 0x043F, 0x0438, 0x0442,
      0x0430, 0x0439, 0x0442, 0x0435, 0x0020, 0x043E, 0x0442, 0x043D, 0x043E, 0x0432,
      0x043E, 0x002E]"

text \<open>Line 261: the label of records without a category (the Bulgarian word for others).\<close>

definition LABEL_OTHERS :: jsstring where
  "LABEL_OTHERS =
     [0x0414, 0x0440, 0x0443, 0x0433, 0x0438]"

section \<open>Data model\<close>

text \<open>
  The interfaces \<^verbatim>\<open>Employee\<close> and \<^verbatim>\<open>Expense\<close> (lines 8 to 26). A row
  comes from the remote store, so \<open>amount\<close> and \<open>category\<close> may be absent at run
  time although the interface declares them: \<open>None\<close> stands for
  \<^verbatim>\<open>null\<close>, \<^verbatim>\<open>undefined\<close> and, for the amount, \<^verbatim>\<open>NaN\<close>. Amounts are
  exact rationals; the rounding of IEEE doubles is outside this model.
\<close>

record Employee =
  fullName :: jsstring
  employeeId :: jsstring

record Expense =
  exp_id :: jsstring
  employee_id :: jsstring
  receipt_image_url :: "jsstring option"
  merchant :: "jsstring option"
  receipt_date :: "jsstring option"
  amount :: "rat option"
  currency :: jsstring
  category :: "jsstring option"
  status :: jsstring
  status_reason :: "jsstring option"
  exp_comment :: "jsstring option"
  created_at :: jsstring

datatype msg_kind = Success | Error | Info

record Message =
  msg_type :: msg_kind
  msg_text :: jsstring

text \<open>Of a \<^verbatim>\<open>File\<close> the code reads the name and the declared media type.\<close>

record File =
  file_name :: jsstring
  file_type :: jsstring

text \<open>
  The two callbacks handed to \<^verbatim>\<open>setTimeout\<close>: line 126 clears the employee
  message; lines 236 to 238 call the \<^verbatim>\<open>fetchExpenseHistory\<close> of the render
  that started the submission, which closes over the saved flag and the
  employee of that render.
\<close>

datatype callback = ClearEmployeeMessage | RefreshHistory bool Employee

record Timer =
  delay_ms :: nat
  callback :: callback

text \<open>
  The state of the component (lines 34 to 48), together with the parts of the
  browser the handlers write to: the value of the file input behind
  \<^verbatim>\<open>fileInputRef\<close> (\<open>None\<close> while the ref is not attached), the local
  storage (each item held as the record whose JSON text is stored) and the
  timers that are pending.
\<close>

record app_state =
  employee :: Employee
  employeeMessage :: "Message option"
  isEmployeeSaved :: bool
  comment :: jsstring
  selectedFile :: "File option"
  isSubmitting :: bool
  expenseMessage :: "Message option"
  fileInputRef :: "jsstring option"
  expenses :: "Expense list"
  isLoadingHistory :: bool
  historyError :: "jsstring option"
  localStorage :: "jsstring \<rightharpoonup> Employee"
  timers :: "Timer list"

section \<open>Plain objects used as dictionaries\<close>

text \<open>
  \<^verbatim>\<open>byCategory\<close> is an object literal \<^verbatim>\<open>{}\<close>, so it inherits from
  \<^verbatim>\<open>Object.prototype\<close>. Its own properties are kept in creation order. The
  values the code stores are numbers, or the string that \<^verbatim>\<open>+\<close> yields when
  its left operand is not a number; the characters of such a string are not
  modelled (it is never empty).
\<close>

datatype prim = PNum rat | PText

datatype read = RUndefined | RPrim prim | RInherited

datatype operand = ONum rat | ONonNumber

type_synonym jsobject = "(jsstring \<times> prim) list"

definition PROTO :: jsstring where
  "PROTO = js ''__proto__''"

definition object_prototype_names :: "jsstring list" where
  "object_prototype_names =
     [js ''constructor'', js ''hasOwnProperty'', js ''isPrototypeOf'',
      js ''propertyIsEnumerable'', js ''toLocaleString'', js ''toString'',
      js ''valueOf'', PROTO, js ''__defineGetter__'', js ''__defineSetter__'',
      js ''__lookupGetter__'', js ''__lookupSetter__'']"

text \<open>\<^verbatim>\<open>obj[k]\<close>: an own property first, then the prototype.\<close>

definition get_prop :: "jsobject \<Rightarrow> jsstring \<Rightarrow> read" where
  "get_prop obj k =
     (case map_of obj k of
        Some v \<Rightarrow> RPrim v
      | None \<Rightarrow> if k \<in> set object_prototype_names then RInherited else RUndefined)"

fun set_own :: "jsstring \<Rightarrow> prim \<Rightarrow> jsobject \<Rightarrow> jsobject" where
  "set_own k v [] = [(k, v)]"
| "set_own k v (p # ps) = (if fst p = k then (k, v) # ps else p # set_own k v ps)"

text \<open>
  \<^verbatim>\<open>obj[k] = v\<close> for a primitive \<open>v\<close>: the setter of \<^verbatim>\<open>__proto__\<close> ignores a
  value that is not an object; every other key becomes or stays an own
  property.
\<close>

definition set_prop :: "jsobject \<Rightarrow> jsstring \<Rightarrow> prim \<Rightarrow> jsobject" where
  "set_prop obj k v = (if k = PROTO then obj else set_own k v obj)"

text \<open>\<^verbatim>\<open>x || 0\<close> on what a property read returns, and \<^verbatim>\<open>x + a\<close> for a number \<open>a\<close>.\<close>

fun or_zero :: "read \<Rightarrow> operand" where
  "or_zero RUndefined = ONum 0"
| "or_zero (RPrim (PNum n)) = (if n = 0 then ONum 0 else ONum n)"
| "or_zero (RPrim PText) = ONonNumber"
| "or_zero RInherited = ONonNumber"

fun plus_number :: "operand \<Rightarrow> rat \<Rightarrow> prim" where
  "plus_number (ONum n) a = PNum (n + a)"
| "plus_number ONonNumber a = PText"

text \<open>
  Own keys are enumerated with the array indices first, in ascending numeric
  order, and then the other strings in creation order. An array index is the
  canonical decimal string of an integer below \<open>2\<^sup>3\<^sup>2 - 1\<close>.
\<close>

definition is_digit :: "code_unit \<Rightarrow> bool" where
  "is_digit c \<longleftrightarrow> 0x30 \<le> c \<and> c \<le> 0x39"

definition numeric_value :: "jsstring \<Rightarrow> int" where
  "numeric_value s = foldl (\<lambda>n c. 10 * n + (uint c - 48)) 0 s"

definition is_array_index :: "jsstring \<Rightarrow> bool" where
  "is_array_index s \<longleftrightarrow>
     s \<noteq> [] \<and> list_all is_digit s \<and> (s = [0x30] \<or> hd s \<noteq> 0x30) \<and>
     numeric_value s < 4294967295"

definition own_keys :: "jsobject \<Rightarrow> jsstring list" where
  "own_keys obj =
     (let ks = map fst obj
      in sort_key numeric_value (filter is_array_index ks) @
         filter (\<lambda>k. \<not> is_array_index k) ks)"

text \<open>\<^verbatim>\<open>Object.entries\<close>, which line 453 maps over.\<close>

definition Object_entries :: "jsobject \<Rightarrow> (jsstring \<times> prim) list" where
  "Object_entries obj =
     concat (map (\<lambda>k. case map_of obj k of Some v \<Rightarrow> [(k, v)] | None \<Rightarrow> []) (own_keys obj))"

section \<open>Statistics (lines 252 to 266)\<close>

record Stats =
  total :: rat
  approved :: nat
  rejected :: nat
  pending :: nat
  byCategory :: jsobject

text \<open>\<^verbatim>\<open>exp.amount || 0\<close> and \<^verbatim>\<open>exp.category || LABEL_OTHERS\<close>.\<close>

definition amount_or_zero :: "Expense \<Rightarrow> rat" where
  "amount_or_zero e =
     (case amount e of None \<Rightarrow> 0 | Some a \<Rightarrow> if a = 0 then 0 else a)"

definition category_or_others :: "Expense \<Rightarrow> jsstring" where
  "category_or_others e =
     (case category e of None \<Rightarrow> LABEL_OTHERS | Some c \<Rightarrow> if c = [] then LABEL_OTHERS else c)"

text \<open>The body of the \<^verbatim>\<open>forEach\<close> at lines 260 to 263.\<close>

definition add_to_category :: "jsobject \<Rightarrow> Expense \<Rightarrow> jsobject" where
  "add_to_category obj e =
     (let cat = category_or_others e
      in set_prop obj cat (plus_number (or_zero (get_prop obj cat)) (amount_or_zero e)))"

definition calculateStats :: "app_state \<Rightarrow> Stats" where
  "calculateStats s =
     (let total = foldl (\<lambda>sum e. sum + amount_or_zero e) 0 (expenses s);
          approved = length (filter (\<lambda>e. status e = js ''Approved'') (expenses s));
          rejected = length (filter (\<lambda>e. status e = js ''Rejected'') (expenses s));
          pending = length (filter (\<lambda>e. status e = js ''Manual Review'') (expenses s));
          byCategory = foldl add_to_category [] (expenses s)
      in \<lparr>total = total, approved = approved, rejected = rejected, pending = pending,
          byCategory = byCategory\<rparr>)"

section \<open>The statistics over an explicit store\<close>

text \<open>
  \<^verbatim>\<open>expenses\<close> refers to an array object whose elements refer to row
  objects, and \<^verbatim>\<open>byCategory\<close> is an object the call creates. To state what
  a call writes, lines 252 to 266 are given a second time over a store of
  objects: an address is a position in the store, a fresh object is appended,
  and a read through a reference that does not lead to an object of the
  expected kind fails (\<open>None\<close>), as the property access of line 253 throws on
  \<^verbatim>\<open>undefined\<close>.
\<close>

datatype cell = Row Expense | Array "nat list" | Dict jsobject

type_synonym store = "cell list"

definition row_at :: "store \<Rightarrow> nat \<Rightarrow> Expense option" where
  "row_at h a = (if a < length h then (case h ! a of Row e \<Rightarrow> Some e | _ \<Rightarrow> None) else None)"

definition array_at :: "store \<Rightarrow> nat \<Rightarrow> nat list option" where
  "array_at h a =
     (if a < length h then (case h ! a of Array refs \<Rightarrow> Some refs | _ \<Rightarrow> None) else None)"

definition dict_at :: "store \<Rightarrow> nat \<Rightarrow> jsobject option" where
  "dict_at h a = (if a < length h then (case h ! a of Dict obj \<Rightarrow> Some obj | _ \<Rightarrow> None) else None)"

definition alloc :: "cell \<Rightarrow> store \<Rightarrow> nat \<times> store" where
  "alloc c h = (length h, h @ [c])"

text \<open>\<^verbatim>\<open>reduce\<close> with the callback of line 253: it reads each row.\<close>

fun reduce_total :: "store \<Rightarrow> nat list \<Rightarrow> rat \<Rightarrow> rat option" where
  "reduce_total h [] acc = Some acc"
| "reduce_total h (r # rs) acc =
     (case row_at h r of
        None \<Rightarrow> None
      | Some e \<Rightarrow> reduce_total h rs (acc + amount_or_zero e))"

text \<open>
  \<^verbatim>\<open>filter\<close> with the callbacks of lines 254 to 256: the references of the
  rows with the given status. The array it returns is a fresh object.
\<close>

fun filter_status :: "jsstring \<Rightarrow> store \<Rightarrow> nat list \<Rightarrow> nat list option" where
  "filter_status st h [] = Some []"
| "filter_status st h (r # rs) =
     (case row_at h r of
        None \<Rightarrow> None
      | Some e \<Rightarrow>
          (case filter_status st h rs of
             None \<Rightarrow> None
           | Some kept \<Rightarrow> Some (if status e = st then r # kept else kept)))"

text \<open>
  \<^verbatim>\<open>forEach\<close> with the callback of lines 260 to 263: it reads the row and
  writes to the object at \<open>d\<close>.
\<close>

fun forEach_add :: "nat \<Rightarrow> nat list \<Rightarrow> store \<Rightarrow> store option" where
  "forEach_add d [] h = Some h"
| "forEach_add d (r # rs) h =
     (case row_at h r of
        None \<Rightarrow> None
      | Some e \<Rightarrow>
          (case dict_at h d of
             None \<Rightarrow> None
           | Some obj \<Rightarrow> forEach_add d rs (h[d := Dict (add_to_category obj e)])))"

definition Array_reduce_total :: "nat \<Rightarrow> store \<Rightarrow> rat option" where
  "Array_reduce_total arr h =
     (case array_at h arr of None \<Rightarrow> None | Some refs \<Rightarrow> reduce_total h refs 0)"

definition Array_filter_length :: "jsstring \<Rightarrow> nat \<Rightarrow> store \<Rightarrow> (nat \<times> store) option" where
  "Array_filter_length st arr h =
     (case array_at h arr of
        None \<Rightarrow> None
      | Some refs \<Rightarrow>
          (case filter_status st h refs of
             None \<Rightarrow> None
           | Some kept \<Rightarrow> Some (length kept, snd (alloc (Array kept) h))))"

definition Array_forEach_add :: "nat \<Rightarrow> nat \<Rightarrow> store \<Rightarrow> store option" where
  "Array_forEach_add d arr h =
     (case array_at h arr of None \<Rightarrow> None | Some refs \<Rightarrow> forEach_add d refs h)"

text \<open>The object that line 265 returns; its breakdown is a reference.\<close>

record StatsRef =
  ref_total :: rat
  ref_approved :: nat
  ref_rejected :: nat
  ref_pending :: nat
  ref_byCategory :: nat

definition calculateStats_store :: "nat \<Rightarrow> store \<Rightarrow> (StatsRef \<times> store) option" where
  "calculateStats_store arr h =
     (case Array_reduce_total arr h of
        None \<Rightarrow> None
      | Some t \<Rightarrow>
     (case Array_filter_length (js ''Approved'') arr h of
        None \<Rightarrow> None
      | Some (a, h1) \<Rightarrow>
     (case Array_filter_length (js ''Rejected'') arr h1 of
        None \<Rightarrow> None
      | Some (r, h2) \<Rightarrow>
     (case Array_filter_length (js ''Manual Review'') arr h2 of
        None \<Rightarrow> None
      | Some (p, h3) \<Rightarrow>
     (case alloc (Dict []) h3 of
        (d, h4) \<Rightarrow>
     (case Array_forEach_add d arr h4 of
        None \<Rightarrow> None
      | Some h5 \<Rightarrow>
          Some (\<lparr>ref_total = t, ref_approved = a, ref_rejected = r, ref_pending = p,
                 ref_byCategory = d\<rparr>, h5)))))))"

text \<open>The returned object with its breakdown read from the store.\<close>

definition read_stats :: "store \<Rightarrow> StatsRef \<Rightarrow> Stats option" where
  "read_stats h r =
     (case dict_at h (ref_byCategory r) of
        None \<Rightarrow> None
      | Some obj \<Rightarrow>
          Some \<lparr>total = ref_total r, approved = ref_approved r, rejected = ref_rejected r,
                pending = ref_pending r, byCategory = obj\<rparr>)"

text \<open>The rows an array refers to, in order.\<close>

fun rows_at :: "store \<Rightarrow> nat list \<Rightarrow> Expense list option" where
  "rows_at h [] = Some []"
| "rows_at h (r # rs) =
     (case row_at h r of
        None \<Rightarrow> None
      | Some e \<Rightarrow> (case rows_at h rs of None \<Rightarrow> None | Some es \<Rightarrow> Some (e # es)))"

definition rows_of :: "store \<Rightarrow> nat \<Rightarrow> Expense list option" where
  "rows_of h arr = (case array_at h arr of None \<Rightarrow> None | Some refs \<Rightarrow> rows_at h refs)"

section \<open>History (lines 67 to 93)\<close>

text \<open>
  An asynchronous handler runs in two steps: the part before its \<^verbatim>\<open>await\<close>
  reads the render it was created in and issues a request; the part after it
  is applied to the state the component has when the answer arrives.
\<close>

record Query =
  from_table :: jsstring
  select_columns :: jsstring
  eq_employee_id :: jsstring
  order_column :: jsstring
  ascending :: bool


text \<open>
  Lines 68 to 80. The saved flag and the employee are the ones the callback
  closes over (\<^verbatim>\<open>useCallback\<close>, line 93).
\<close>

definition fetchExpenseHistory_begin ::
  "bool \<Rightarrow> Employee \<Rightarrow> app_state \<Rightarrow> app_state \<times> Query option" where
  "fetchExpenseHistory_begin saved emp s =
     (if \<not> saved \<or> fullName emp = [] \<or> employeeId emp = [] then (s, None)
      else (s\<lparr>isLoadingHistory := True, historyError := None\<rparr>,
            Some \<lparr>from_table = js ''expenses'', select_columns = js ''*'',
                  eq_employee_id = employeeId emp, order_column = js ''created_at'',
                  ascending = False\<rparr>))"



section \<open>Identity (lines 103 to 127)\<close>

definition STORAGE_KEY :: jsstring where
  "STORAGE_KEY = js ''techcorp_employee''"

text \<open>The inputs of lines 326 and 337 and the text area of line 385.\<close>

definition onChange_fullName :: "jsstring \<Rightarrow> app_state \<Rightarrow> app_state" where
  "onChange_fullName v s = s\<lparr>employee := (employee s)\<lparr>fullName := v\<rparr>\<rparr>"

definition onChange_employeeId :: "jsstring \<Rightarrow> app_state \<Rightarrow> app_state" where
  "onChange_employeeId v s = s\<lparr>employee := (employee s)\<lparr>employeeId := v\<rparr>\<rparr>"

definition onChange_comment :: "jsstring \<Rightarrow> app_state \<Rightarrow> app_state" where
  "onChange_comment v s = s\<lparr>comment := v\<rparr>"

text \<open>
  \<^verbatim>\<open>localStorage.setItem\<close> throws when the quota is exceeded or the storage
  is disabled. Line 117 stands in no \<^verbatim>\<open>try\<close>, so the exception leaves the
  handler: what was set before it, the cleared message of line 104, is kept,
  and lines 122 to 126 do not run.
\<close>

datatype write_outcome = Written | WriteThrew

datatype exception = StorageException

definition handleSaveEmployee ::
  "write_outcome \<Rightarrow> app_state \<Rightarrow> app_state \<times> exception option" where
  "handleSaveEmployee w s =
     (let s1 = s\<lparr>employeeMessage := None\<rparr>
      in if trim (fullName (employee s)) = [] then
           (s1\<lparr>employeeMessage :=
                 Some \<lparr>msg_type = Error, msg_text = TEXT_ENTER_FULL_NAME\<rparr>\<rparr>, None)
         else if trim (employeeId (employee s)) = [] then
           (s1\<lparr>employeeMessage :=
                 Some \<lparr>msg_type = Error, msg_text = TEXT_ENTER_EMPLOYEE_ID\<rparr>\<rparr>, None)
         else
           (case w of
              WriteThrew \<Rightarrow> (s1, Some StorageException)
            | Written \<Rightarrow>
                (s1\<lparr>localStorage := (localStorage s1)(STORAGE_KEY \<mapsto>
                       \<lparr>fullName = trim (fullName (employee s)),
                        employeeId = trim (employeeId (employee s))\<rparr>),
                   isEmployeeSaved := True,
                   employeeMessage := Some \<lparr>msg_type = Success, msg_text = TEXT_SAVED\<rparr>,
                   timers := timers s1 @
                     [\<lparr>delay_ms = 3000, callback = ClearEmployeeMessage\<rparr>]\<rparr>, None)))"

text \<open>A pending timer fires: it leaves the list and its callback runs.\<close>

fun run_callback :: "callback \<Rightarrow> app_state \<Rightarrow> app_state \<times> Query option" where
  "run_callback ClearEmployeeMessage s = (s\<lparr>employeeMessage := None\<rparr>, None)"
| "run_callback (RefreshHistory saved emp) s = fetchExpenseHistory_begin saved emp s"

definition fire_timer :: "nat \<Rightarrow> app_state \<Rightarrow> app_state \<times> Query option" where
  "fire_timer i s =
     (if i < length (timers s) then
        run_callback (callback (timers s ! i))
          (s\<lparr>timers := take i (timers s) @ drop (Suc i) (timers s)\<rparr>)
      else (s, None))"

section \<open>Submission (lines 130 to 249)\<close>

definition N8N_WEBHOOK_URL :: jsstring where
  "N8N_WEBHOOK_URL = js ''https://n8n.simeontsvetanovn8nworkflows.site/webhook/expense-submit''"

definition ALLOWED_FILE_TYPES :: "jsstring list" where
  "ALLOWED_FILE_TYPES =
     [js ''image/jpeg'', js ''image/jpg'', js ''image/png'', js ''image/webp'', js ''image/gif'']"

definition invalid_format :: Message where
  "invalid_format = \<lparr>msg_type = Error, msg_text = TEXT_INVALID_FORMAT\<rparr>"

text \<open>Lines 130 to 147; \<open>None\<close> is a change event without a file.\<close>

definition handleFileChange :: "File option \<Rightarrow> app_state \<Rightarrow> app_state" where
  "handleFileChange file s =
     (case file of
        None \<Rightarrow> s
      | Some f \<Rightarrow>
          if file_type f \<notin> set ALLOWED_FILE_TYPES then
            s\<lparr>expenseMessage := Some invalid_format, selectedFile := None,
              fileInputRef := (case fileInputRef s of None \<Rightarrow> None | Some v \<Rightarrow> Some [])\<rparr>
          else s\<lparr>selectedFile := Some f, expenseMessage := None\<rparr>)"

text \<open>The multipart body of the POST (lines 184 to 197).\<close>

record Request =
  url :: jsstring
  http_method :: jsstring
  form_full_name :: jsstring
  form_employee_id :: jsstring
  form_comment :: jsstring
  form_receipt_file :: "File option"

text \<open>Lines 150 to 197, up to the \<^verbatim>\<open>await\<close> of the POST.\<close>

definition handleSubmitExpense_begin :: "app_state \<Rightarrow> app_state \<times> Request option" where
  "handleSubmitExpense_begin s =
     (let s1 = s\<lparr>expenseMessage := None\<rparr>
      in if \<not> isEmployeeSaved s \<or> fullName (employee s) = [] \<or> employeeId (employee s) = [] then
           (s1\<lparr>expenseMessage :=
                 Some \<lparr>msg_type = Error, msg_text = TEXT_IDENTITY_REQUIRED\<rparr>\<rparr>, None)
         else if selectedFile s = None \<and> trim (comment s) = [] then
           (s1\<lparr>expenseMessage :=
                 Some \<lparr>msg_type = Error, msg_text = TEXT_RECEIPT_OR_DESCRIPTION\<rparr>\<rparr>, None)
         else if (case selectedFile s of
                    None \<Rightarrow> False
                  | Some f \<Rightarrow> file_type f \<notin> set ALLOWED_FILE_TYPES) then
           (s1\<lparr>expenseMessage := Some invalid_format\<rparr>, None)
         else
           (s1\<lparr>isSubmitting := True\<rparr>,
            Some \<lparr>url = N8N_WEBHOOK_URL, http_method = js ''POST'',
                  form_full_name = fullName (employee s),
                  form_employee_id = employeeId (employee s),
                  form_comment = trim (comment s),
                  form_receipt_file = selectedFile s\<rparr>))"

text \<open>
  The answer to the POST. Of the response the code reads the status (\<^verbatim>\<open>ok\<close>
  is a status from 200 to 299), the content type and, through
  \<^verbatim>\<open>response.json()\<close>, the fields \<^verbatim>\<open>status\<close> and \<^verbatim>\<open>reason\<close>, taken to be
  strings when present; \<open>json_body\<close> is \<open>None\<close> when parsing throws or yields
  no object. A rejected promise carries the \<^verbatim>\<open>message\<close> of what was thrown,
  if it has one.
\<close>

record ResponseData =
  data_status :: "jsstring option"
  data_reason :: "jsstring option"

record Response =
  resp_status :: nat
  content_type :: "jsstring option"
  json_body :: "ResponseData option"

datatype fetch_outcome = Threw "jsstring option" | Responded Response

definition ok :: "Response \<Rightarrow> bool" where
  "ok r \<longleftrightarrow> 200 \<le> resp_status r \<and> resp_status r \<le> 299"

text \<open>The \<^verbatim>\<open>catch\<close> block, lines 240 to 245.\<close>

definition submit_failed :: "jsstring option \<Rightarrow> app_state \<Rightarrow> app_state" where
  "submit_failed message s =
     s\<lparr>expenseMessage := Some \<lparr>msg_type = Error,
          msg_text = TEXT_SUBMIT_ERROR_PREFIX @
            (case message of
               None \<Rightarrow> TEXT_TRY_AGAIN
             | Some m \<Rightarrow> if m = [] then TEXT_TRY_AGAIN else m)\<rparr>\<rparr>"

text \<open>Lines 203 to 213: the body is parsed only under a JSON content type.\<close>

definition responseData :: "Response \<Rightarrow> ResponseData option" where
  "responseData r =
     (case content_type r of
        None \<Rightarrow> None
      | Some ct \<Rightarrow>
          if ct \<noteq> [] \<and> includes_str ct (js ''application/json'') then json_body r
          else None)"

text \<open>Lines 215 to 238.\<close>

definition processed_text :: "ResponseData \<Rightarrow> jsstring option" where
  "processed_text d =
     (case data_status d of
        None \<Rightarrow> None
      | Some st \<Rightarrow>
          if st = [] then None
          else Some (TEXT_PROCESSED_PREFIX @ st @
                 (case data_reason d of
                    None \<Rightarrow> []
                  | Some reason \<Rightarrow> if reason = [] then [] else js '' - '' @ reason)))"

definition success_text :: "Response \<Rightarrow> jsstring" where
  "success_text r =
     (case responseData r of
        None \<Rightarrow> TEXT_SENT
      | Some d \<Rightarrow> (case processed_text d of None \<Rightarrow> TEXT_SENT | Some txt \<Rightarrow> txt))"

definition submit_succeeded :: "app_state \<Rightarrow> Response \<Rightarrow> app_state \<Rightarrow> app_state" where
  "submit_succeeded c r s =
     s\<lparr>comment := [], selectedFile := None,
       fileInputRef := (case fileInputRef s of None \<Rightarrow> None | Some v \<Rightarrow> Some []),
       expenseMessage := Some \<lparr>msg_type = Success, msg_text = success_text r\<rparr>,
       timers := timers s @
         [\<lparr>delay_ms = 1000, callback = RefreshHistory (isEmployeeSaved c) (employee c)\<rparr>]\<rparr>"

text \<open>
  Lines 199 to 248, from the answer on: \<open>c\<close> is the render the handler was
  called in, \<open>s\<close> the state when the answer arrives.
\<close>

definition handleSubmitExpense_end :: "app_state \<Rightarrow> fetch_outcome \<Rightarrow> app_state \<Rightarrow> app_state" where
  "handleSubmitExpense_end c out s =
     (let s1 = (case out of
                  Threw message \<Rightarrow> submit_failed message s
                | Responded r \<Rightarrow>
                    if \<not> ok r then
                      submit_failed (Some (js ''HTTP error! status: '' @ decimal (resp_status r))) s
                    else submit_succeeded c r s)
      in s1\<lparr>isSubmitting := False\<rparr>)"

text \<open>A whole submission, with nothing else running before the answer.\<close>

definition handleSubmitExpense :: "fetch_outcome \<Rightarrow> app_state \<Rightarrow> app_state" where
  "handleSubmitExpense out s =
     (case handleSubmitExpense_begin s of
        (s1, None) \<Rightarrow> s1
      | (s1, Some req) \<Rightarrow> handleSubmitExpense_end s out s1)"

section \<open>Concrete states\<close>

text \<open>The initial values of lines 34 to 48, with the file input mounted.\<close>

definition initial_state :: app_state where
  "initial_state =
     \<lparr>employee = \<lparr>fullName = [], employeeId = []\<rparr>, employeeMessage = None,
      isEmployeeSaved = False, comment = [], selectedFile = None, isSubmitting = False,
      expenseMessage = None, fileInputRef = Some [], expenses = [],
      isLoadingHistory = False, historyError = None, localStorage = Map.empty,
      timers = []\<rparr>"

text \<open>The state once a name and a number were entered and saved.\<close>

definition saved_state :: app_state where
  "saved_state =
     initial_state\<lparr>employee := \<lparr>fullName = js ''Ivan Ivanov'', employeeId = js ''EMP001''\<rparr>,
       isEmployeeSaved := True\<rparr>"

text \<open>A row of the remote store with the given amount, status and category.\<close>

definition row :: "rat \<Rightarrow> jsstring \<Rightarrow> jsstring option \<Rightarrow> Expense" where
  "row a st cat =
     \<lparr>exp_id = [], employee_id = [], receipt_image_url = None, merchant = None,
      receipt_date = None, amount = Some a, currency = js ''BGN'', category = cat,
      status = st, status_reason = None, exp_comment = None, created_at = []\<rparr>"

text \<open>Two stores that hold the same three rows, in the same order, in different places.\<close>

definition example_store :: store where
  "example_store =
     [Row (row 10 (js ''Approved'') (Some (js ''Food''))), Row (row 5 (js ''Rejected'') None),
      Array [0, 1, 0]]"

definition example_store_2 :: store where
  "example_store_2 =
     [Array [2, 1, 2], Row (row 5 (js ''Rejected'') None),
      Row (row 10 (js ''Approved'') (Some (js ''Food'')))]"

section \<open>Notions of the specification\<close>

text \<open>
  First-seen order: every element once, at the place of its first occurrence
  when the list is read front to back.
\<close>

primrec first_seen :: "'a list \<Rightarrow> 'a list" where
  "first_seen [] = []"
| "first_seen (x # xs) = x # filter (\<lambda>y. y \<noteq> x) (first_seen xs)"

text \<open>The category labels of a state's expense list, in list order.\<close>

definition labels :: "app_state \<Rightarrow> jsstring list" where
  "labels s = map category_or_others (expenses s)"

text \<open>
  The sum of the values of an object: \<open>None\<close> as soon as one value is not a
  number.
\<close>

fun plus_opt :: "rat option \<Rightarrow> rat option \<Rightarrow> rat option" where
  "plus_opt (Some a) (Some b) = Some (a + b)"
| "plus_opt _ _ = None"

fun number_of :: "prim \<Rightarrow> rat option" where
  "number_of (PNum n) = Some n"
| "number_of PText = None"

fun sum_of_values :: "(jsstring \<times> prim) list \<Rightarrow> rat option" where
  "sum_of_values [] = Some 0"
| "sum_of_values (p # ps) = plus_opt (number_of (snd p)) (sum_of_values ps)"

text \<open>The number an object holds for a key, and 0 when it holds none.\<close>

definition held :: "jsobject \<Rightarrow> jsstring \<Rightarrow> rat" where
  "held obj k = (case map_of obj k of Some (PNum n) \<Rightarrow> n | _ \<Rightarrow> 0)"

section \<open>Auxiliary facts\<close>

lemmas text_defs =
  TEXT_HISTORY_ERROR_def TEXT_ENTER_FULL_NAME_def TEXT_ENTER_EMPLOYEE_ID_def TEXT_SAVED_def
  TEXT_INVALID_FORMAT_def TEXT_IDENTITY_REQUIRED_def TEXT_RECEIPT_OR_DESCRIPTION_def
  TEXT_PROCESSED_PREFIX_def TEXT_SENT_def TEXT_SUBMIT_ERROR_PREFIX_def TEXT_TRY_AGAIN_def

lemma trim_Nil: "trim [] = []"
  by (simp add: trim_def)

lemma set_first_seen: "set (first_seen xs) = set xs"
  by (induction xs) auto

lemma distinct_first_seen: "distinct (first_seen xs)"
  by (induction xs) auto

lemma first_seen_example: "first_seen [1, 2, 1, 3, 2 :: nat] = [1, 2, 3]"
  by simp

lemmas stats_defs =
  calculateStats_def add_to_category_def category_or_others_def amount_or_zero_def
  set_prop_def get_prop_def js_def LABEL_OTHERS_def PROTO_def object_prototype_names_def

lemmas keys_defs =
  Object_entries_def own_keys_def is_array_index_def is_digit_def numeric_value_def

lemma keys_set_own:
  "map fst (set_own k v obj) =
     (if k \<in> set (map fst obj) then map fst obj else map fst obj @ [k])"
  by (induction obj) auto

lemma keys_add_to_category:
  assumes "category_or_others e \<noteq> PROTO"
  shows "map fst (add_to_category obj e) =
     (if category_or_others e \<in> set (map fst obj) then map fst obj
      else map fst obj @ [category_or_others e])"
  using assms by (simp add: add_to_category_def set_prop_def keys_set_own Let_def)

lemma keys_foldl_add_to_category:
  "PROTO \<notin> set (map category_or_others es) \<Longrightarrow>
   map fst (foldl add_to_category obj es) =
     map fst obj @
     filter (\<lambda>k. k \<notin> set (map fst obj)) (first_seen (map category_or_others es))"
proof (induction es arbitrary: obj)
  case Nil
  then show ?case by simp
next
  case (Cons e es)
  then have ne: "category_or_others e \<noteq> PROTO"
    and rest: "PROTO \<notin> set (map category_or_others es)"
    by auto
  show ?case
    using Cons.IH [OF rest, of "add_to_category obj e"] keys_add_to_category [OF ne, of obj]
    by (auto intro!: filter_cong)
qed

lemma looked_up_keys:
  "set ks \<subseteq> set (map fst obj) \<Longrightarrow>
   map fst (concat (map (\<lambda>k. case map_of obj k of Some v \<Rightarrow> [(k, v)] | None \<Rightarrow> []) ks)) = ks"
proof (induction ks)
  case Nil
  then show ?case by simp
next
  case (Cons k ks)
  then have "k \<in> fst ` set obj" by auto
  then obtain v where "map_of obj k = Some v"
    by (metis domD dom_map_of_conv_image_fst)
  with Cons show ?case by simp
qed

lemma keys_Object_entries: "map fst (Object_entries obj) = own_keys obj"
proof -
  have "set (own_keys obj) \<subseteq> set (map fst obj)"
    by (auto simp: own_keys_def Let_def)
  then show ?thesis
    unfolding Object_entries_def by (rule looked_up_keys)
qed

lemma plus_opt_commute: "plus_opt a b = plus_opt b a"
  by (cases a; cases b) simp_all

lemma plus_opt_assoc: "plus_opt (plus_opt a b) c = plus_opt a (plus_opt b c)"
  by (cases a; cases b; cases c) simp_all

lemma plus_opt_left_commute: "plus_opt a (plus_opt b c) = plus_opt b (plus_opt a c)"
  by (cases a; cases b; cases c) simp_all

lemma plus_opt_zero: "plus_opt (Some 0) a = a"
  by (cases a) simp_all

lemma plus_opt_zero_right: "plus_opt a (Some 0) = a"
  by (cases a) simp_all

lemma sum_of_values_append:
  "sum_of_values (ps @ qs) = plus_opt (sum_of_values ps) (sum_of_values qs)"
  by (induction ps) (simp_all add: plus_opt_zero plus_opt_assoc)

lemma sum_of_looked_up_insort:
  "sum_of_values (concat (map g (insort_key f k ks))) =
   plus_opt (sum_of_values (g k)) (sum_of_values (concat (map g ks)))"
  by (induction ks) (simp_all add: sum_of_values_append plus_opt_left_commute plus_opt_zero_right)

lemma sum_of_looked_up_sort:
  "sum_of_values (concat (map g (sort_key f ks))) = sum_of_values (concat (map g ks))"
  by (induction ks) (simp_all add: sum_of_values_append sum_of_looked_up_insort)

lemma sum_of_looked_up_partition:
  "plus_opt (sum_of_values (concat (map g (filter P ks))))
     (sum_of_values (concat (map g (filter (\<lambda>k. \<not> P k) ks)))) =
   sum_of_values (concat (map g ks))"
  by (induction ks)
    (simp_all add: sum_of_values_append plus_opt_zero plus_opt_assoc plus_opt_left_commute)

lemma looked_up_all:
  "distinct (map fst obj) \<Longrightarrow> set ps \<subseteq> set obj \<Longrightarrow>
   concat (map (\<lambda>k. case map_of obj k of Some v \<Rightarrow> [(k, v)] | None \<Rightarrow> []) (map fst ps)) = ps"
proof (induction ps)
  case Nil
  then show ?case by simp
next
  case (Cons p ps)
  then have look: "map_of obj (fst p) = Some (snd p)"
    by (cases p) simp
  have "(case map_of obj (fst p) of Some v \<Rightarrow> [(fst p, v)] | None \<Rightarrow> []) = [p]"
    unfolding look by simp
  with Cons show ?case by simp
qed

lemma sum_of_Object_entries:
  assumes "distinct (map fst obj)"
  shows "sum_of_values (Object_entries obj) = sum_of_values obj"
proof -
  let ?g = "\<lambda>k. case map_of obj k of Some v \<Rightarrow> [(k, v)] | None \<Rightarrow> []"
  have "sum_of_values (Object_entries obj) = sum_of_values (concat (map ?g (map fst obj)))"
    unfolding Object_entries_def own_keys_def Let_def
    by (simp only: map_append concat_append sum_of_values_append sum_of_looked_up_sort
        sum_of_looked_up_partition)
  also have "concat (map ?g (map fst obj)) = obj"
    using looked_up_all [OF assms, of obj] by simp
  finally show ?thesis .
qed

lemma total_foldl:
  "foldl (\<lambda>sum e. sum + amount_or_zero e) t es = t + sum_list (map amount_or_zero es)"
  by (induction es arbitrary: t) auto

lemma numeric_lookup:
  "sum_of_values obj = Some t \<Longrightarrow> map_of obj k = Some v \<Longrightarrow> \<exists>n. v = PNum n"
proof (induction obj arbitrary: t)
  case Nil
  then show ?case by simp
next
  case (Cons p ps)
  obtain k' w where p: "p = (k', w)" by (cases p)
  from Cons.prems(1) obtain n r where "w = PNum n" "sum_of_values ps = Some r"
    by (cases w; cases "sum_of_values ps") (auto simp: p)
  with Cons show ?case by (auto simp: p split: if_splits)
qed

lemma set_own_sum:
  "sum_of_values obj = Some t \<Longrightarrow>
   sum_of_values (set_own k (PNum (held obj k + a)) obj) = Some (t + a)"
proof (induction obj arbitrary: t)
  case Nil
  then show ?case by (simp add: held_def)
next
  case (Cons p ps)
  obtain k' v where p: "p = (k', v)" by (cases p)
  from Cons.prems obtain n r where v: "v = PNum n" and r: "sum_of_values ps = Some r" and t: "t = n + r"
    by (cases v; cases "sum_of_values ps") (auto simp: p)
  show ?case
  proof (cases "k' = k")
    case True
    then show ?thesis by (simp add: p v r t held_def)
  next
    case False
    then have "held (p # ps) k = held ps k" by (simp add: p held_def)
    with False Cons.IH [OF r] show ?thesis by (simp add: p v t)
  qed
qed

lemma add_to_category_sum:
  assumes "category_or_others e \<notin> set object_prototype_names"
    and "sum_of_values obj = Some t"
  shows "sum_of_values (add_to_category obj e) = Some (t + amount_or_zero e)"
proof -
  have not_proto: "category_or_others e \<noteq> PROTO"
    using assms(1) by (auto simp: object_prototype_names_def)
  have "plus_number (or_zero (get_prop obj (category_or_others e))) (amount_or_zero e) =
      PNum (held obj (category_or_others e) + amount_or_zero e)"
    using assms(1) numeric_lookup [OF assms(2), of "category_or_others e"]
    by (auto simp: get_prop_def held_def split: option.splits)
  then show ?thesis
    using set_own_sum [OF assms(2)] not_proto
    by (simp add: add_to_category_def set_prop_def Let_def)
qed

lemma foldl_add_to_category_sum:
  "set (map category_or_others es) \<inter> set object_prototype_names = {} \<Longrightarrow>
   sum_of_values obj = Some t \<Longrightarrow>
   sum_of_values (foldl add_to_category obj es) = Some (t + sum_list (map amount_or_zero es))"
proof (induction es arbitrary: obj t)
  case Nil
  then show ?case by simp
next
  case (Cons e es)
  then have here: "category_or_others e \<notin> set object_prototype_names"
    and rest: "set (map category_or_others es) \<inter> set object_prototype_names = {}"
    by auto
  show ?case
    using Cons.IH [OF rest add_to_category_sum [OF here Cons.prems(2)]]
    by (simp add: add.assoc)
qed

lemma distinct_keys_foldl:
  "distinct (map fst obj) \<Longrightarrow> distinct (map fst (foldl add_to_category obj es))"
proof (induction es arbitrary: obj)
  case Nil
  then show ?case by simp
next
  case (Cons e es)
  have "distinct (map fst (add_to_category obj e))"
    using Cons.prems by (simp add: add_to_category_def set_prop_def Let_def keys_set_own)
  then show ?case using Cons.IH by simp
qed

lemma row_at_append: "row_at h r = Some e \<Longrightarrow> row_at (h @ xs) r = Some e"
  by (auto simp: row_at_def nth_append split: if_splits)

lemma array_at_append: "array_at h a = Some refs \<Longrightarrow> array_at (h @ xs) a = Some refs"
  by (auto simp: array_at_def nth_append split: if_splits)

lemma rows_at_append: "rows_at h refs = Some rows \<Longrightarrow> rows_at (h @ xs) refs = Some rows"
  by (induction refs arbitrary: rows) (auto simp: row_at_append split: option.splits)

lemma rows_of_append: "rows_of h arr = Some rows \<Longrightarrow> rows_of (h @ xs) arr = Some rows"
  by (auto simp: rows_of_def array_at_append rows_at_append split: option.splits)

lemma row_at_update:
  "dict_at h d = Some obj \<Longrightarrow> row_at h r = Some e \<Longrightarrow> row_at (h[d := Dict obj']) r = Some e"
  by (auto simp: row_at_def dict_at_def nth_list_update split: if_splits cell.splits)

lemma array_at_update:
  "dict_at h d = Some obj \<Longrightarrow> array_at h a = Some refs \<Longrightarrow>
   array_at (h[d := Dict obj']) a = Some refs"
  by (auto simp: array_at_def dict_at_def nth_list_update split: if_splits cell.splits)

lemma rows_at_update:
  "dict_at h d = Some obj \<Longrightarrow> rows_at h refs = Some rows \<Longrightarrow>
   rows_at (h[d := Dict obj']) refs = Some rows"
  by (induction refs arbitrary: rows) (auto simp: row_at_update split: option.splits)

lemma dict_at_update: "dict_at h d = Some obj \<Longrightarrow> dict_at (h[d := Dict obj']) d = Some obj'"
  by (auto simp: dict_at_def split: if_splits)

lemma reduce_total_rows:
  "rows_at h refs = Some rows \<Longrightarrow>
   reduce_total h refs t = Some (foldl (\<lambda>sum e. sum + amount_or_zero e) t rows)"
  by (induction refs arbitrary: rows t) (auto split: option.splits)

lemma filter_status_rows:
  "rows_at h refs = Some rows \<Longrightarrow>
   \<exists>kept. filter_status st h refs = Some kept \<and>
          length kept = length (filter (\<lambda>e. status e = st) rows)"
  by (induction refs arbitrary: rows) (auto split: option.splits)

lemma forEach_add_rows:
  "dict_at h d = Some obj \<Longrightarrow> rows_at h refs = Some rows \<Longrightarrow>
   forEach_add d refs h = Some (h[d := Dict (foldl add_to_category obj rows)])"
proof (induction refs arbitrary: h obj rows)
  case Nil
  then have "h ! d = Dict obj"
    by (auto simp: dict_at_def split: if_splits cell.splits)
  then have "h[d := Dict obj] = h"
    by (metis list_update_id)
  with Nil show ?case by simp
next
  case (Cons r rs)
  from Cons.prems(2) obtain e es where e: "row_at h r = Some e" and es: "rows_at h rs = Some es"
    and rows: "rows = e # es"
    by (auto split: option.splits)
  let ?h = "h[d := Dict (add_to_category obj e)]"
  have "forEach_add d rs ?h = Some (?h[d := Dict (foldl add_to_category (add_to_category obj e) es)])"
    using Cons.prems(1) es by (intro Cons.IH dict_at_update rows_at_update)
  then show ?case
    using e Cons.prems(1) by (simp add: rows)
qed

lemma Array_filter_length_rows:
  assumes "rows_of h arr = Some rows"
  shows "\<exists>kept. Array_filter_length st arr h =
           Some (length (filter (\<lambda>e. status e = st) rows), h @ [Array kept])"
proof -
  from assms obtain refs where refs: "array_at h arr = Some refs" "rows_at h refs = Some rows"
    by (auto simp: rows_of_def split: option.splits)
  from filter_status_rows [OF refs(2), of st] obtain kept
    where "filter_status st h refs = Some kept"
      "length kept = length (filter (\<lambda>e. status e = st) rows)"
    by blast
  then show ?thesis
    using refs by (auto simp: Array_filter_length_def alloc_def)
qed

lemma calculateStats_store_refines:
  assumes "rows_of h arr = Some rows"
  shows "\<exists>r h'. calculateStats_store arr h = Some (r, h') \<and>
           take (length h) h' = h \<and>
           rows_of h' arr = Some rows \<and>
           read_stats h' r = Some (calculateStats (s\<lparr>expenses := rows\<rparr>))"
proof -
  obtain k1 where a: "Array_filter_length (js ''Approved'') arr h =
      Some (length (filter (\<lambda>e. status e = js ''Approved'') rows), h @ [Array k1])"
    using Array_filter_length_rows [OF assms] by blast
  have rows1: "rows_of (h @ [Array k1]) arr = Some rows"
    using assms by (rule rows_of_append)
  obtain k2 where r: "Array_filter_length (js ''Rejected'') arr (h @ [Array k1]) =
      Some (length (filter (\<lambda>e. status e = js ''Rejected'') rows), h @ [Array k1, Array k2])"
    using Array_filter_length_rows [OF rows1, of "js ''Rejected''"] by auto
  have rows2: "rows_of (h @ [Array k1, Array k2]) arr = Some rows"
    using assms by (rule rows_of_append)
  obtain k3 where p: "Array_filter_length (js ''Manual Review'') arr (h @ [Array k1, Array k2]) =
      Some (length (filter (\<lambda>e. status e = js ''Manual Review'') rows),
            h @ [Array k1, Array k2, Array k3])"
    using Array_filter_length_rows [OF rows2, of "js ''Manual Review''"] by auto
  let ?h4 = "h @ [Array k1, Array k2, Array k3, Dict []]"
  let ?d = "Suc (Suc (Suc (length h)))"
  have rows4: "rows_of ?h4 arr = Some rows"
    using assms by (rule rows_of_append)
  then obtain refs where refs: "array_at ?h4 arr = Some refs" "rows_at ?h4 refs = Some rows"
    by (auto simp: rows_of_def split: option.splits)
  have d: "dict_at ?h4 ?d = Some []"
    by (simp add: dict_at_def nth_append)
  let ?h5 = "?h4[?d := Dict (foldl add_to_category [] rows)]"
  have g: "Array_forEach_add ?d arr ?h4 = Some ?h5"
    using refs forEach_add_rows [OF d refs(2)] by (simp add: Array_forEach_add_def)
  have t: "Array_reduce_total arr h = Some (foldl (\<lambda>sum e. sum + amount_or_zero e) 0 rows)"
    using assms
    by (auto simp: rows_of_def Array_reduce_total_def reduce_total_rows split: option.splits)
  let ?r = "\<lparr>ref_total = foldl (\<lambda>sum e. sum + amount_or_zero e) 0 rows,
              ref_approved = length (filter (\<lambda>e. status e = js ''Approved'') rows),
              ref_rejected = length (filter (\<lambda>e. status e = js ''Rejected'') rows),
              ref_pending = length (filter (\<lambda>e. status e = js ''Manual Review'') rows),
              ref_byCategory = ?d\<rparr>"
  have run: "calculateStats_store arr h = Some (?r, ?h5)"
    unfolding calculateStats_store_def by (simp add: t a r p g alloc_def)
  have frame: "take (length h) ?h5 = h"
    by simp
  have rows5: "rows_of ?h5 arr = Some rows"
    using refs d by (simp add: rows_of_def array_at_update rows_at_update)
  have val: "read_stats ?h5 ?r = Some (calculateStats (s\<lparr>expenses := rows\<rparr>))"
    using dict_at_update [OF d, of "foldl add_to_category [] rows"]
    by (simp add: read_stats_def calculateStats_def)
  from run frame rows5 val show ?thesis by blast
qed


lemma read_stats_append:
  "read_stats h r = Some v \<Longrightarrow> read_stats (h @ xs) r = Some v"
  by (auto simp: read_stats_def dict_at_def nth_append split: option.splits if_splits cell.splits)

section \<open>The statistics\<close>

text \<open>
  C1 (as amended). For the list of three records with amounts 10, 5 and 7,
  statuses Approved, Rejected and Manual Review and categories Food, Food and
  none, whatever the other fields and the rest of the state are, the
  statistics are total 22, one approved, one rejected, one pending, and a
  breakdown whose entries are Food with 15 followed by the label of line 261
  with 7. That label, which is not the word Other, is the key of the records
  whose category is absent or empty.
\<close>

theorem C1_example_statistics:
  "calculateStats (s\<lparr>expenses :=
       [a\<lparr>amount := Some 10, status := js ''Approved'', category := Some (js ''Food'')\<rparr>,
        b\<lparr>amount := Some 5, status := js ''Rejected'', category := Some (js ''Food'')\<rparr>,
        c\<lparr>amount := Some 7, status := js ''Manual Review'', category := None\<rparr>]\<rparr>) =
     \<lparr>total = 22, approved = 1, rejected = 1, pending = 1,
      byCategory = [(js ''Food'', PNum 15), (LABEL_OTHERS, PNum 7)]\<rparr> \<and>
   Object_entries [(js ''Food'', PNum 15), (LABEL_OTHERS, PNum 7)] =
     [(js ''Food'', PNum 15), (LABEL_OTHERS, PNum 7)] \<and>
   category_or_others (a\<lparr>category := None\<rparr>) = LABEL_OTHERS \<and>
   category_or_others (a\<lparr>category := Some []\<rparr>) = LABEL_OTHERS \<and>
   LABEL_OTHERS \<noteq> js ''Other''"
  by (simp add: stats_defs keys_defs)

theorem C1_example_statistics_witness:
  "calculateStats (initial_state\<lparr>expenses :=
       [row 10 (js ''Approved'') (Some (js ''Food'')),
        row 5 (js ''Rejected'') (Some (js ''Food'')),
        row 7 (js ''Manual Review'') None]\<rparr>) =
     \<lparr>total = 22, approved = 1, rejected = 1, pending = 1,
      byCategory = [(js ''Food'', PNum 15), (LABEL_OTHERS, PNum 7)]\<rparr>"
  using C1_example_statistics [where s = initial_state
      and a = "row 10 (js ''Approved'') (Some (js ''Food''))"
      and b = "row 5 (js ''Rejected'') (Some (js ''Food''))"
      and c = "row 7 (js ''Manual Review'') None"]
  by (simp add: row_def)

text \<open>
  C1 as stated fails: on that list the entries of the breakdown are not Food
  with 15 and Other with 7, since no property named Other is created.
\<close>

theorem C1_counterexample:
  "\<not> (total (calculateStats (initial_state\<lparr>expenses :=
          [row 10 (js ''Approved'') (Some (js ''Food'')),
           row 5 (js ''Rejected'') (Some (js ''Food'')),
           (row 7 (js ''Manual Review'') None)]\<rparr>)) = 22 \<and>
       Object_entries (byCategory (calculateStats (initial_state\<lparr>expenses :=
          [row 10 (js ''Approved'') (Some (js ''Food'')),
           row 5 (js ''Rejected'') (Some (js ''Food'')),
           (row 7 (js ''Manual Review'') None)]\<rparr>))) =
         [(js ''Food'', PNum 15), (js ''Other'', PNum 7)])"
  by (simp add: stats_defs keys_defs initial_state_def row_def)

text \<open>
  C6 (as amended). For every expense list in which no record has the label
  \<^verbatim>\<open>__proto__\<close>, the keys of the breakdown are enumerated as follows: first
  the labels that are array indices, in ascending numeric order, then all
  other labels in first-seen order. When no label is an array index, that is
  the first-seen order of the labels.
\<close>

theorem C6_enumeration_order:
  assumes "PROTO \<notin> set (labels s)"
  shows "map fst (Object_entries (byCategory (calculateStats s))) =
           sort_key numeric_value (filter is_array_index (first_seen (labels s))) @
           filter (\<lambda>k. \<not> is_array_index k) (first_seen (labels s)) \<and>
         (list_all (\<lambda>k. \<not> is_array_index k) (labels s) \<longrightarrow>
           map fst (Object_entries (byCategory (calculateStats s))) = first_seen (labels s))"
proof -
  have keys: "map fst (byCategory (calculateStats s)) = first_seen (labels s)"
    using keys_foldl_add_to_category [of "expenses s" "[]"] assms
    by (simp add: calculateStats_def labels_def)
  then have first: "map fst (Object_entries (byCategory (calculateStats s))) =
           sort_key numeric_value (filter is_array_index (first_seen (labels s))) @
           filter (\<lambda>k. \<not> is_array_index k) (first_seen (labels s))"
    by (simp add: keys_Object_entries own_keys_def Let_def)
  have "filter is_array_index (first_seen (labels s)) = [] \<and>
        filter (\<lambda>k. \<not> is_array_index k) (first_seen (labels s)) = first_seen (labels s)"
    if "list_all (\<lambda>k. \<not> is_array_index k) (labels s)"
    using that by (simp add: list_all_iff set_first_seen filter_empty_conv)
  with first show ?thesis by simp
qed

theorem C6_enumeration_order_witness:
  "map fst (Object_entries (byCategory (calculateStats (initial_state\<lparr>expenses :=
      [row 3 (js ''Approved'') (Some (js ''Food'')), row 4 (js ''Approved'') (Some (js ''10'')),
       row 5 (js ''Rejected'') (Some (js ''Food'')), row 6 (js ''Approved'') (Some (js ''7'')),
       row 7 (js ''Approved'') None]\<rparr>)))) =
     [js ''7'', js ''10'', js ''Food'', LABEL_OTHERS]"
  using C6_enumeration_order [of "initial_state\<lparr>expenses :=
      [row 3 (js ''Approved'') (Some (js ''Food'')), row 4 (js ''Approved'') (Some (js ''10'')),
       row 5 (js ''Rejected'') (Some (js ''Food'')), row 6 (js ''Approved'') (Some (js ''7'')),
       row 7 (js ''Approved'') None]\<rparr>"]
  by (simp add: labels_def category_or_others_def row_def initial_state_def js_def PROTO_def
      LABEL_OTHERS_def is_array_index_def is_digit_def numeric_value_def)

text \<open>
  C6 as stated fails: with the labels Food and then 2024, the key 2024 is
  enumerated before Food.
\<close>

theorem C6_counterexample:
  "map fst (Object_entries (byCategory (calculateStats (initial_state\<lparr>expenses :=
      [row 10 (js ''Approved'') (Some (js ''Food'')),
       row 5 (js ''Approved'') (Some (js ''2024''))]\<rparr>)))) \<noteq>
   first_seen (labels (initial_state\<lparr>expenses :=
      [row 10 (js ''Approved'') (Some (js ''Food'')),
       row 5 (js ''Approved'') (Some (js ''2024''))]\<rparr>))"
  by (simp add: stats_defs keys_defs labels_def initial_state_def row_def)

text \<open>
  The statistics depend on the state through the expense list only.
\<close>

lemma calculateStats_depends_on_list:
  "expenses s = expenses s' \<Longrightarrow> calculateStats s = calculateStats s'"
  by (simp add: calculateStats_def)

text \<open>
  C7. Let the array at \<open>arr\<close> of a store refer to the rows of an expense
  list. Then a call returns, and it leaves every object that existed before
  it as it was: the array and its rows are not written to, the call only
  adds objects of its own. What it returns, read from the store, is the
  statistics of that list. A second call on the store the first one leaves
  returns the same statistics, again without writing to what existed, and
  does not change what the first call returned. A call on any other array,
  in any store, that holds the same rows in the same order returns the same
  statistics.
\<close>

theorem C7_same_list_same_result:
  assumes "rows_of h arr = Some rows" and "rows_of g brr = Some rows"
  shows "\<exists>r h'. calculateStats_store arr h = Some (r, h') \<and>
           take (length h) h' = h \<and>
           rows_of h' arr = Some rows \<and>
           read_stats h' r = Some (calculateStats (s\<lparr>expenses := rows\<rparr>)) \<and>
           (\<exists>r2 h2. calculateStats_store arr h' = Some (r2, h2) \<and>
              take (length h') h2 = h' \<and>
              read_stats h2 r2 = read_stats h' r \<and>
              read_stats h2 r = read_stats h' r) \<and>
           (\<exists>r3 g'. calculateStats_store brr g = Some (r3, g') \<and>
              take (length g) g' = g \<and>
              read_stats g' r3 = read_stats h' r)"
proof -
  from calculateStats_store_refines [OF assms(1), of s] obtain r h'
    where first: "calculateStats_store arr h = Some (r, h')" "take (length h) h' = h"
      "rows_of h' arr = Some rows"
      "read_stats h' r = Some (calculateStats (s\<lparr>expenses := rows\<rparr>))"
    by blast
  from calculateStats_store_refines [OF first(3), of s] obtain r2 h2
    where second: "calculateStats_store arr h' = Some (r2, h2)" "take (length h') h2 = h'"
      "read_stats h2 r2 = Some (calculateStats (s\<lparr>expenses := rows\<rparr>))"
    by blast
  from second(2) have "h2 = h' @ drop (length h') h2"
    by (metis append_take_drop_id)
  then have kept: "read_stats h2 r = read_stats h' r"
    using read_stats_append [OF first(4), of "drop (length h') h2"] first(4) by simp
  from calculateStats_store_refines [OF assms(2), of s] obtain r3 g'
    where other: "calculateStats_store brr g = Some (r3, g')" "take (length g) g' = g"
      "read_stats g' r3 = Some (calculateStats (s\<lparr>expenses := rows\<rparr>))"
    by blast
  from first second kept other show ?thesis by auto
qed


theorem C7_same_list_same_result_witness:
  "calculateStats_store 2 example_store =
     Some (\<lparr>ref_total = 25, ref_approved = 2, ref_rejected = 1, ref_pending = 0,
             ref_byCategory = 6\<rparr>,
           example_store @
             [Array [0, 0], Array [1], Array [],
              Dict [(js ''Food'', PNum 20), (LABEL_OTHERS, PNum 5)]]) \<and>
   (\<exists>r h'. calculateStats_store 2 example_store = Some (r, h') \<and>
     take 3 h' = example_store \<and>
     read_stats h' r =
       Some \<lparr>total = 25, approved = 2, rejected = 1, pending = 0,
             byCategory = [(js ''Food'', PNum 20), (LABEL_OTHERS, PNum 5)]\<rparr> \<and>
     (\<exists>r2 h2. calculateStats_store 2 h' = Some (r2, h2) \<and> read_stats h2 r2 = read_stats h' r) \<and>
     (\<exists>r3 g'. calculateStats_store 0 example_store_2 = Some (r3, g') \<and>
        take 3 g' = example_store_2 \<and> read_stats g' r3 = read_stats h' r))"
proof -
  have run: "calculateStats_store 2 example_store =
     Some (\<lparr>ref_total = 25, ref_approved = 2, ref_rejected = 1, ref_pending = 0,
             ref_byCategory = 6\<rparr>,
           example_store @
             [Array [0, 0], Array [1], Array [],
              Dict [(js ''Food'', PNum 20), (LABEL_OTHERS, PNum 5)]])"
    by (simp add: example_store_def calculateStats_store_def Array_reduce_total_def
        Array_filter_length_def Array_forEach_add_def alloc_def array_at_def row_at_def
        dict_at_def stats_defs row_def)
  have a: "rows_of example_store 2 =
      Some [row 10 (js ''Approved'') (Some (js ''Food'')), row 5 (js ''Rejected'') None,
            row 10 (js ''Approved'') (Some (js ''Food''))]"
    by (simp add: example_store_def rows_of_def array_at_def row_at_def)
  have b: "rows_of example_store_2 0 =
      Some [row 10 (js ''Approved'') (Some (js ''Food'')), row 5 (js ''Rejected'') None,
            row 10 (js ''Approved'') (Some (js ''Food''))]"
    by (simp add: example_store_2_def rows_of_def array_at_def row_at_def)
  have c: "calculateStats (initial_state\<lparr>expenses :=
      [row 10 (js ''Approved'') (Some (js ''Food'')), row 5 (js ''Rejected'') None,
       row 10 (js ''Approved'') (Some (js ''Food''))]\<rparr>) =
      \<lparr>total = 25, approved = 2, rejected = 1, pending = 0,
             byCategory = [(js ''Food'', PNum 20), (LABEL_OTHERS, PNum 5)]\<rparr>"
    by (simp add: stats_defs row_def)
  have l: "length example_store = 3" "length example_store_2 = 3"
    by (simp_all add: example_store_def example_store_2_def)
  have "\<exists>r h'. calculateStats_store 2 example_store = Some (r, h') \<and>
     take 3 h' = example_store \<and>
     read_stats h' r =
       Some \<lparr>total = 25, approved = 2, rejected = 1, pending = 0,
             byCategory = [(js ''Food'', PNum 20), (LABEL_OTHERS, PNum 5)]\<rparr> \<and>
     (\<exists>r2 h2. calculateStats_store 2 h' = Some (r2, h2) \<and> read_stats h2 r2 = read_stats h' r) \<and>
     (\<exists>r3 g'. calculateStats_store 0 example_store_2 = Some (r3, g') \<and>
        take 3 g' = example_store_2 \<and> read_stats g' r3 = read_stats h' r)"
    using C7_same_list_same_result [OF a b, of initial_state]
    unfolding c l by blast
  with run show ?thesis by (rule conjI)
qed

text \<open>
  Outside the property names of \<^verbatim>\<open>Object.prototype\<close> the breakdown is a
  partition of the total. The statement is about amounts that are integers
  whose absolute values add up to at most \<open>2\<^sup>5\<^sup>3\<close>: there every addition of
  lines 253 and 262 is exact in double arithmetic, so that the exact sums of
  this model are the numbers the code computes. For such a list, when no
  label is a property name of \<^verbatim>\<open>Object.prototype\<close>, the values that
  \<^verbatim>\<open>Object.entries\<close> enumerates are numbers and add up to the total.
\<close>

lemma breakdown_partitions_total:
  assumes "set (labels s) \<inter> set object_prototype_names = {}"
    and "list_all (\<lambda>e. amount_or_zero e \<in> \<int>) (expenses s)"
    and "sum_list (map (\<lambda>e. \<bar>amount_or_zero e\<bar>) (expenses s)) \<le> 2 ^ 53"
  shows "sum_of_values (Object_entries (byCategory (calculateStats s))) =
         Some (total (calculateStats s))"
proof -
  have "sum_of_values (foldl add_to_category [] (expenses s)) =
      Some (0 + sum_list (map amount_or_zero (expenses s)))"
    using assms(1) by (intro foldl_add_to_category_sum) (simp_all add: labels_def)
  moreover have "distinct (map fst (foldl add_to_category [] (expenses s)))"
    by (rule distinct_keys_foldl) simp
  ultimately show ?thesis
    by (simp add: calculateStats_def sum_of_Object_entries total_foldl)
qed

text \<open>
  C9 (the code at the failing input). For the single record with amount 10
  and the category \<^verbatim>\<open>__proto__\<close> the total is 10 while the breakdown has no
  entry at all, so its values add up to 0 and not to the total.
\<close>

theorem C9_failing_input:
  "total (calculateStats (initial_state\<lparr>expenses :=
      [row 10 (js ''Approved'') (Some (js ''__proto__''))]\<rparr>)) = 10 \<and>
   Object_entries (byCategory (calculateStats (initial_state\<lparr>expenses :=
      [row 10 (js ''Approved'') (Some (js ''__proto__''))]\<rparr>))) = [] \<and>
   sum_of_values (Object_entries (byCategory (calculateStats (initial_state\<lparr>expenses :=
      [row 10 (js ''Approved'') (Some (js ''__proto__''))]\<rparr>)))) = Some 0"
  by (simp add: stats_defs keys_defs initial_state_def row_def)

section \<open>The submission\<close>

text \<open>
  C2. For every state in which the submit handler is called: (a) when the
  identity is not saved, or the name or the number is empty, the
  identity-required error is set and no request is issued; (b) otherwise,
  when there is no file and the trimmed comment is empty, the
  receipt-or-description error is set and no request is issued; (c)
  otherwise, when the file's declared type is outside the allow-list, the
  invalid-format error is set and no request is issued; otherwise the
  submitting flag is set and the POST to the webhook is issued, with the
  name, the number, the trimmed comment and the file. The allow-list is the
  five image types, \<^verbatim>\<open>application/pdf\<close> is outside it, and the three error
  texts are pairwise different.
\<close>

theorem C2_preconditions_in_order:
  "(\<not> isEmployeeSaved s \<or> fullName (employee s) = [] \<or> employeeId (employee s) = [] \<longrightarrow>
      handleSubmitExpense_begin s =
        (s\<lparr>expenseMessage := Some \<lparr>msg_type = Error, msg_text = TEXT_IDENTITY_REQUIRED\<rparr>\<rparr>,
         None)) \<and>
   (isEmployeeSaved s \<and> fullName (employee s) \<noteq> [] \<and> employeeId (employee s) \<noteq> [] \<and>
    selectedFile s = None \<and> trim (comment s) = [] \<longrightarrow>
      handleSubmitExpense_begin s =
        (s\<lparr>expenseMessage :=
             Some \<lparr>msg_type = Error, msg_text = TEXT_RECEIPT_OR_DESCRIPTION\<rparr>\<rparr>, None)) \<and>
   (isEmployeeSaved s \<and> fullName (employee s) \<noteq> [] \<and> employeeId (employee s) \<noteq> [] \<and>
    selectedFile s = Some f \<and> file_type f \<notin> set ALLOWED_FILE_TYPES \<longrightarrow>
      handleSubmitExpense_begin s =
        (s\<lparr>expenseMessage := Some \<lparr>msg_type = Error, msg_text = TEXT_INVALID_FORMAT\<rparr>\<rparr>,
         None)) \<and>
   (isEmployeeSaved s \<and> fullName (employee s) \<noteq> [] \<and> employeeId (employee s) \<noteq> [] \<and>
    (selectedFile s = None \<longrightarrow> trim (comment s) \<noteq> []) \<and>
    (\<forall>g. selectedFile s = Some g \<longrightarrow> file_type g \<in> set ALLOWED_FILE_TYPES) \<longrightarrow>
      handleSubmitExpense_begin s =
        (s\<lparr>expenseMessage := None, isSubmitting := True\<rparr>,
         Some \<lparr>url = N8N_WEBHOOK_URL, http_method = js ''POST'',
               form_full_name = fullName (employee s),
               form_employee_id = employeeId (employee s),
               form_comment = trim (comment s), form_receipt_file = selectedFile s\<rparr>)) \<and>
   set ALLOWED_FILE_TYPES =
     {js ''image/jpeg'', js ''image/jpg'', js ''image/png'', js ''image/webp'', js ''image/gif''} \<and>
   js ''application/pdf'' \<notin> set ALLOWED_FILE_TYPES \<and>
   distinct [TEXT_IDENTITY_REQUIRED, TEXT_RECEIPT_OR_DESCRIPTION, TEXT_INVALID_FORMAT]"
proof -
  have a: "\<not> isEmployeeSaved s \<or> fullName (employee s) = [] \<or> employeeId (employee s) = [] \<longrightarrow>
      handleSubmitExpense_begin s =
        (s\<lparr>expenseMessage := Some \<lparr>msg_type = Error, msg_text = TEXT_IDENTITY_REQUIRED\<rparr>\<rparr>,
         None)"
    by (auto simp: handleSubmitExpense_begin_def)
  have b: "isEmployeeSaved s \<and> fullName (employee s) \<noteq> [] \<and> employeeId (employee s) \<noteq> [] \<and>
    selectedFile s = None \<and> trim (comment s) = [] \<longrightarrow>
      handleSubmitExpense_begin s =
        (s\<lparr>expenseMessage :=
             Some \<lparr>msg_type = Error, msg_text = TEXT_RECEIPT_OR_DESCRIPTION\<rparr>\<rparr>, None)"
    by (simp add: handleSubmitExpense_begin_def)
  have c: "isEmployeeSaved s \<and> fullName (employee s) \<noteq> [] \<and> employeeId (employee s) \<noteq> [] \<and>
    selectedFile s = Some f \<and> file_type f \<notin> set ALLOWED_FILE_TYPES \<longrightarrow>
      handleSubmitExpense_begin s =
        (s\<lparr>expenseMessage := Some \<lparr>msg_type = Error, msg_text = TEXT_INVALID_FORMAT\<rparr>\<rparr>,
         None)"
    by (simp add: handleSubmitExpense_begin_def invalid_format_def)
  have d: "isEmployeeSaved s \<and> fullName (employee s) \<noteq> [] \<and> employeeId (employee s) \<noteq> [] \<and>
    (selectedFile s = None \<longrightarrow> trim (comment s) \<noteq> []) \<and>
    (\<forall>g. selectedFile s = Some g \<longrightarrow> file_type g \<in> set ALLOWED_FILE_TYPES) \<longrightarrow>
      handleSubmitExpense_begin s =
        (s\<lparr>expenseMessage := None, isSubmitting := True\<rparr>,
         Some \<lparr>url = N8N_WEBHOOK_URL, http_method = js ''POST'',
               form_full_name = fullName (employee s),
               form_employee_id = employeeId (employee s),
               form_comment = trim (comment s), form_receipt_file = selectedFile s\<rparr>)"
    by (cases "selectedFile s") (simp_all add: handleSubmitExpense_begin_def)
  have e: "set ALLOWED_FILE_TYPES =
     {js ''image/jpeg'', js ''image/jpg'', js ''image/png'', js ''image/webp'', js ''image/gif''}"
    by (simp add: ALLOWED_FILE_TYPES_def)
  have f: "js ''application/pdf'' \<notin> set ALLOWED_FILE_TYPES"
    by (simp add: ALLOWED_FILE_TYPES_def js_def)
  have g: "distinct [TEXT_IDENTITY_REQUIRED, TEXT_RECEIPT_OR_DESCRIPTION, TEXT_INVALID_FORMAT]"
    by (simp add: text_defs)
  from a b c d e f g show ?thesis by blast
qed

theorem C2_preconditions_in_order_witness:
  "snd (handleSubmitExpense_begin (initial_state\<lparr>comment := js ''taxi''\<rparr>)) = None \<and>
   expenseMessage (fst (handleSubmitExpense_begin (initial_state\<lparr>comment := js ''taxi''\<rparr>))) =
     Some \<lparr>msg_type = Error, msg_text = TEXT_IDENTITY_REQUIRED\<rparr> \<and>
   snd (handleSubmitExpense_begin (saved_state\<lparr>comment := js ''  ''\<rparr>)) = None \<and>
   expenseMessage (fst (handleSubmitExpense_begin (saved_state\<lparr>comment := js ''  ''\<rparr>))) =
     Some \<lparr>msg_type = Error, msg_text = TEXT_RECEIPT_OR_DESCRIPTION\<rparr> \<and>
   snd (handleSubmitExpense_begin (saved_state\<lparr>selectedFile :=
      Some \<lparr>file_name = js ''r.pdf'', file_type = js ''application/pdf''\<rparr>\<rparr>)) = None \<and>
   expenseMessage (fst (handleSubmitExpense_begin (saved_state\<lparr>selectedFile :=
      Some \<lparr>file_name = js ''r.pdf'', file_type = js ''application/pdf''\<rparr>\<rparr>))) =
     Some \<lparr>msg_type = Error, msg_text = TEXT_INVALID_FORMAT\<rparr> \<and>
   isSubmitting (fst (handleSubmitExpense_begin (saved_state\<lparr>comment := js '' taxi '', selectedFile :=
      Some \<lparr>file_name = js ''r.png'', file_type = js ''image/png''\<rparr>\<rparr>))) \<and>
   snd (handleSubmitExpense_begin (saved_state\<lparr>comment := js '' taxi '', selectedFile :=
      Some \<lparr>file_name = js ''r.png'', file_type = js ''image/png''\<rparr>\<rparr>)) =
     Some \<lparr>url = N8N_WEBHOOK_URL, http_method = js ''POST'',
               form_full_name = js ''Ivan Ivanov'',
               form_employee_id = js ''EMP001'',
               form_comment = js ''taxi'', form_receipt_file = Some \<lparr>file_name = js ''r.png'', file_type = js ''image/png''\<rparr>\<rparr>"
  using C2_preconditions_in_order [of "initial_state\<lparr>comment := js ''taxi''\<rparr>"]
    C2_preconditions_in_order [of "saved_state\<lparr>comment := js ''  ''\<rparr>"]
    C2_preconditions_in_order [of "saved_state\<lparr>selectedFile :=
      Some \<lparr>file_name = js ''r.pdf'', file_type = js ''application/pdf''\<rparr>\<rparr>"
      "\<lparr>file_name = js ''r.pdf'', file_type = js ''application/pdf''\<rparr>"]
    C2_preconditions_in_order [of "saved_state\<lparr>comment := js '' taxi '', selectedFile :=
      Some \<lparr>file_name = js ''r.png'', file_type = js ''image/png''\<rparr>\<rparr>"]
  by (simp add: initial_state_def saved_state_def js_def trim_def is_white_space_def ALLOWED_FILE_TYPES_def)

text \<open>
  C8. When the submission has passed validation, the state still holds the
  comment, the file and the file input's value, and the submitting flag is
  set. A thrown error then sets an error message made of the fixed prefix
  and the error's message, or the fallback text when that message is absent
  or empty; a response whose status is outside 200 to 299 sets the prefix
  followed by \<^verbatim>\<open>HTTP error! status: \<close> and the status in decimal. In both
  cases the comment, the file and the file input are left as they are. The
  submitting flag is cleared at the end of every outcome.
\<close>

theorem C8_failed_submission:
  "(snd (handleSubmitExpense_begin s) \<noteq> None \<longrightarrow>
      comment (fst (handleSubmitExpense_begin s)) = comment s \<and>
      selectedFile (fst (handleSubmitExpense_begin s)) = selectedFile s \<and>
      fileInputRef (fst (handleSubmitExpense_begin s)) = fileInputRef s \<and>
      isSubmitting (fst (handleSubmitExpense_begin s))) \<and>
   handleSubmitExpense_end c (Threw message) s' =
     s'\<lparr>isSubmitting := False,
        expenseMessage := Some \<lparr>msg_type = Error,
          msg_text = TEXT_SUBMIT_ERROR_PREFIX @
            (case message of None \<Rightarrow> TEXT_TRY_AGAIN
             | Some m \<Rightarrow> if m = [] then TEXT_TRY_AGAIN else m)\<rparr>\<rparr> \<and>
   (resp_status r < 200 \<or> 299 < resp_status r \<longrightarrow>
      handleSubmitExpense_end c (Responded r) s' =
        s'\<lparr>isSubmitting := False,
           expenseMessage := Some \<lparr>msg_type = Error,
             msg_text = TEXT_SUBMIT_ERROR_PREFIX @ js ''HTTP error! status: '' @
               decimal (resp_status r)\<rparr>\<rparr>) \<and>
   \<not> isSubmitting (handleSubmitExpense_end c out s') \<and>
   (snd (handleSubmitExpense_begin s) \<noteq> None \<longrightarrow> \<not> isSubmitting (handleSubmitExpense out s)) \<and>
   (snd (handleSubmitExpense_begin s) \<noteq> None \<and>
    (out = Threw message \<or> out = Responded r \<and> (resp_status r < 200 \<or> 299 < resp_status r)) \<longrightarrow>
      comment (handleSubmitExpense out s) = comment s \<and>
      selectedFile (handleSubmitExpense out s) = selectedFile s \<and>
      fileInputRef (handleSubmitExpense out s) = fileInputRef s \<and>
      (\<exists>detail. detail \<noteq> [] \<and> expenseMessage (handleSubmitExpense out s) =
         Some \<lparr>msg_type = Error, msg_text = TEXT_SUBMIT_ERROR_PREFIX @ detail\<rparr>))"
proof -
  have started: "comment (fst (handleSubmitExpense_begin s)) = comment s \<and>
      selectedFile (fst (handleSubmitExpense_begin s)) = selectedFile s \<and>
      fileInputRef (fst (handleSubmitExpense_begin s)) = fileInputRef s \<and>
      isSubmitting (fst (handleSubmitExpense_begin s))"
    if "snd (handleSubmitExpense_begin s) \<noteq> None"
    using that by (auto simp: handleSubmitExpense_begin_def Let_def split: if_splits)
  have threw: "handleSubmitExpense_end c (Threw message) s' =
     s'\<lparr>isSubmitting := False,
        expenseMessage := Some \<lparr>msg_type = Error,
          msg_text = TEXT_SUBMIT_ERROR_PREFIX @
            (case message of None \<Rightarrow> TEXT_TRY_AGAIN
             | Some m \<Rightarrow> if m = [] then TEXT_TRY_AGAIN else m)\<rparr>\<rparr>" for c message s'
    by (simp add: handleSubmitExpense_end_def submit_failed_def)
  have http: "handleSubmitExpense_end c (Responded r) s' =
        s'\<lparr>isSubmitting := False,
           expenseMessage := Some \<lparr>msg_type = Error,
             msg_text = TEXT_SUBMIT_ERROR_PREFIX @ js ''HTTP error! status: '' @
               decimal (resp_status r)\<rparr>\<rparr>"
    if "resp_status r < 200 \<or> 299 < resp_status r" for c s'
    using that by (auto simp: handleSubmitExpense_end_def submit_failed_def ok_def js_def)
  have fin: "\<not> isSubmitting (handleSubmitExpense_end c out s')" for c out s'
    by (simp add: handleSubmitExpense_end_def Let_def)
  have run: "handleSubmitExpense out s =
      handleSubmitExpense_end s out (fst (handleSubmitExpense_begin s))"
    if "snd (handleSubmitExpense_begin s) \<noteq> None" for out
    using that by (auto simp: handleSubmitExpense_def split: prod.splits option.splits)
  have try_again: "TEXT_TRY_AGAIN \<noteq> []"
    by (simp add: TEXT_TRY_AGAIN_def)
  have dec: "decimal n \<noteq> []" for n
    by (subst decimal.simps) simp
  have failed: "comment (handleSubmitExpense out s) = comment s \<and>
      selectedFile (handleSubmitExpense out s) = selectedFile s \<and>
      fileInputRef (handleSubmitExpense out s) = fileInputRef s \<and>
      (\<exists>detail. detail \<noteq> [] \<and> expenseMessage (handleSubmitExpense out s) =
         Some \<lparr>msg_type = Error, msg_text = TEXT_SUBMIT_ERROR_PREFIX @ detail\<rparr>)"
    if v: "snd (handleSubmitExpense_begin s) \<noteq> None"
      and o: "out = Threw message \<or> out = Responded r \<and> (resp_status r < 200 \<or> 299 < resp_status r)"
  proof -
    from o show ?thesis
    proof
      assume "out = Threw message"
      then show ?thesis
        using started [OF v] try_again
        by (auto simp: run [OF v] threw split: option.splits)
    next
      assume "out = Responded r \<and> (resp_status r < 200 \<or> 299 < resp_status r)"
      then show ?thesis
        using started [OF v] dec [of "resp_status r"]
        by (simp add: run [OF v] http)
    qed
  qed
  have p1: "snd (handleSubmitExpense_begin s) \<noteq> None \<longrightarrow>
      comment (fst (handleSubmitExpense_begin s)) = comment s \<and>
      selectedFile (fst (handleSubmitExpense_begin s)) = selectedFile s \<and>
      fileInputRef (fst (handleSubmitExpense_begin s)) = fileInputRef s \<and>
      isSubmitting (fst (handleSubmitExpense_begin s))"
    using started by blast
  have p3: "resp_status r < 200 \<or> 299 < resp_status r \<longrightarrow>
      handleSubmitExpense_end c (Responded r) s' =
        s'\<lparr>isSubmitting := False,
           expenseMessage := Some \<lparr>msg_type = Error,
             msg_text = TEXT_SUBMIT_ERROR_PREFIX @ js ''HTTP error! status: '' @
               decimal (resp_status r)\<rparr>\<rparr>"
    using http by blast
  have p5: "snd (handleSubmitExpense_begin s) \<noteq> None \<longrightarrow>
      \<not> isSubmitting (handleSubmitExpense out s)"
    using run fin by simp
  have p6: "snd (handleSubmitExpense_begin s) \<noteq> None \<and>
    (out = Threw message \<or> out = Responded r \<and> (resp_status r < 200 \<or> 299 < resp_status r)) \<longrightarrow>
      comment (handleSubmitExpense out s) = comment s \<and>
      selectedFile (handleSubmitExpense out s) = selectedFile s \<and>
      fileInputRef (handleSubmitExpense out s) = fileInputRef s \<and>
      (\<exists>detail. detail \<noteq> [] \<and> expenseMessage (handleSubmitExpense out s) =
         Some \<lparr>msg_type = Error, msg_text = TEXT_SUBMIT_ERROR_PREFIX @ detail\<rparr>)"
    using failed by blast
  from p1 threw [of c message s'] p3 fin [of c out s'] p5 p6 show ?thesis
    by (intro conjI)
qed

theorem C8_failed_submission_witness:
  "handleSubmitExpense (Responded \<lparr>resp_status = 500, content_type = None, json_body = None\<rparr>)
     (saved_state\<lparr>comment := js ''taxi''\<rparr>) =
   saved_state\<lparr>comment := js ''taxi'',
     expenseMessage := Some \<lparr>msg_type = Error,
       msg_text = TEXT_SUBMIT_ERROR_PREFIX @ js ''HTTP error! status: 500''\<rparr>\<rparr> \<and>
   handleSubmitExpense (Threw (Some (js ''Failed to fetch''))) (saved_state\<lparr>comment := js ''taxi''\<rparr>) =
   saved_state\<lparr>comment := js ''taxi'',
     expenseMessage := Some \<lparr>msg_type = Error,
       msg_text = TEXT_SUBMIT_ERROR_PREFIX @ js ''Failed to fetch''\<rparr>\<rparr>"
  using C8_failed_submission [of "saved_state\<lparr>comment := js ''taxi''\<rparr>" "saved_state\<lparr>comment := js ''taxi''\<rparr>"
      "Some (js ''Failed to fetch'')"
      "fst (handleSubmitExpense_begin (saved_state\<lparr>comment := js ''taxi''\<rparr>))"
      "\<lparr>resp_status = 500, content_type = None, json_body = None\<rparr>"
      "Responded \<lparr>resp_status = 500, content_type = None, json_body = None\<rparr>"]
  by (simp add: handleSubmitExpense_def handleSubmitExpense_begin_def saved_state_def
      initial_state_def js_def trim_def is_white_space_def decimal.simps)

section \<open>The identity\<close>

text \<open>
  C3 (as amended). For every state in which the save handler is called: when
  the trimmed name is empty, the only change is the name error message, and
  nothing is written to the storage; otherwise, when the trimmed number is
  empty, the only change is the number error message, and nothing is written
  to the storage; otherwise, when the write to the storage succeeds, the
  storage holds, under its key, exactly the pair of trimmed inputs, the saved
  flag is true and the success message is set; and when the write throws,
  the exception leaves the handler, nothing is stored, the saved flag is as
  before and the only change is the cleared message. The message is a single
  value, and the two error texts differ.
\<close>

theorem C3_identity_save:
  "(trim (fullName (employee s)) = [] \<longrightarrow>
      handleSaveEmployee w s =
        (s\<lparr>employeeMessage := Some \<lparr>msg_type = Error, msg_text = TEXT_ENTER_FULL_NAME\<rparr>\<rparr>,
         None) \<and>
      localStorage (fst (handleSaveEmployee w s)) = localStorage s) \<and>
   (trim (fullName (employee s)) \<noteq> [] \<and> trim (employeeId (employee s)) = [] \<longrightarrow>
      handleSaveEmployee w s =
        (s\<lparr>employeeMessage := Some \<lparr>msg_type = Error, msg_text = TEXT_ENTER_EMPLOYEE_ID\<rparr>\<rparr>,
         None) \<and>
      localStorage (fst (handleSaveEmployee w s)) = localStorage s) \<and>
   (trim (fullName (employee s)) \<noteq> [] \<and> trim (employeeId (employee s)) \<noteq> [] \<longrightarrow>
      localStorage (fst (handleSaveEmployee Written s)) =
        (localStorage s)(STORAGE_KEY \<mapsto>
           \<lparr>fullName = trim (fullName (employee s)),
            employeeId = trim (employeeId (employee s))\<rparr>) \<and>
      isEmployeeSaved (fst (handleSaveEmployee Written s)) \<and>
      employeeMessage (fst (handleSaveEmployee Written s)) =
        Some \<lparr>msg_type = Success, msg_text = TEXT_SAVED\<rparr> \<and>
      snd (handleSaveEmployee Written s) = None \<and>
      handleSaveEmployee WriteThrew s =
        (s\<lparr>employeeMessage := None\<rparr>, Some StorageException)) \<and>
   TEXT_ENTER_FULL_NAME \<noteq> TEXT_ENTER_EMPLOYEE_ID"
  by (simp add: handleSaveEmployee_def text_defs)

theorem C3_identity_save_witness:
  "employeeMessage (fst (handleSaveEmployee Written
       (onChange_employeeId (js ''E1'') (onChange_fullName (js ''  '') initial_state)))) =
     Some \<lparr>msg_type = Error, msg_text = TEXT_ENTER_FULL_NAME\<rparr> \<and>
   localStorage (fst (handleSaveEmployee Written
       (onChange_employeeId (js ''E1'') (onChange_fullName (js ''  '') initial_state))))
     STORAGE_KEY = None \<and>
   employeeMessage (fst (handleSaveEmployee Written
       (onChange_fullName (js ''Ivan'') initial_state))) =
     Some \<lparr>msg_type = Error, msg_text = TEXT_ENTER_EMPLOYEE_ID\<rparr> \<and>
   localStorage (fst (handleSaveEmployee Written
       (onChange_fullName (js ''Ivan'') initial_state))) STORAGE_KEY = None \<and>
   localStorage (fst (handleSaveEmployee Written
       (onChange_employeeId (js '' E1 '') (onChange_fullName (js '' Ivan '') initial_state))))
     STORAGE_KEY = Some \<lparr>fullName = js ''Ivan'', employeeId = js ''E1''\<rparr> \<and>
   isEmployeeSaved (fst (handleSaveEmployee Written
       (onChange_employeeId (js '' E1 '') (onChange_fullName (js '' Ivan '') initial_state)))) \<and>
   handleSaveEmployee WriteThrew
       (onChange_employeeId (js '' E1 '') (onChange_fullName (js '' Ivan '') initial_state)) =
     (onChange_employeeId (js '' E1 '') (onChange_fullName (js '' Ivan '') initial_state),
      Some StorageException)"
  using C3_identity_save [of "onChange_employeeId (js ''E1'') (onChange_fullName (js ''  '') initial_state)" Written]
    C3_identity_save [of "onChange_fullName (js ''Ivan'') initial_state" Written]
    C3_identity_save [of "onChange_employeeId (js '' E1 '') (onChange_fullName (js '' Ivan '') initial_state)" Written]
  by (simp add: initial_state_def onChange_fullName_def onChange_employeeId_def js_def trim_def
      is_white_space_def)

text \<open>
  C3 as stated fails: with the name Ivan and the number E1 typed, both
  non-empty after trimming, a save whose write to the storage throws leaves
  the storage without a record and the saved flag false.
\<close>

theorem C3_counterexample:
  "trim (fullName (employee
       (onChange_employeeId (js ''E1'') (onChange_fullName (js ''Ivan'') initial_state)))) \<noteq> [] \<and>
   trim (employeeId (employee
       (onChange_employeeId (js ''E1'') (onChange_fullName (js ''Ivan'') initial_state)))) \<noteq> [] \<and>
   localStorage (fst (handleSaveEmployee WriteThrew
       (onChange_employeeId (js ''E1'') (onChange_fullName (js ''Ivan'') initial_state))))
     STORAGE_KEY = None \<and>
   \<not> isEmployeeSaved (fst (handleSaveEmployee WriteThrew
       (onChange_employeeId (js ''E1'') (onChange_fullName (js ''Ivan'') initial_state))))"
  by (simp add: handleSaveEmployee_def initial_state_def onChange_fullName_def
      onChange_employeeId_def js_def trim_def is_white_space_def)

text \<open>
  C4 (as amended). A successful save appends one timer of 3000 ms whose
  callback clears the employee message. When such a timer fires it sets the
  employee message to none, whichever message is displayed at that moment:
  the timer is not tied to the message it was created for.
\<close>

theorem C4_timer_clears_any_message:
  "(trim (fullName (employee s)) \<noteq> [] \<and> trim (employeeId (employee s)) \<noteq> [] \<longrightarrow>
      timers (fst (handleSaveEmployee Written s)) =
        timers s @ [\<lparr>delay_ms = 3000, callback = ClearEmployeeMessage\<rparr>]) \<and>
   (i < length (timers s') \<and> callback (timers s' ! i) = ClearEmployeeMessage \<longrightarrow>
      fire_timer i s' =
        (s'\<lparr>timers := take i (timers s') @ drop (Suc i) (timers s'), employeeMessage := None\<rparr>,
         None))"
  by (simp add: handleSaveEmployee_def fire_timer_def)

theorem C4_timer_clears_any_message_witness:
  "timers (fst (handleSaveEmployee Written saved_state)) = [\<lparr>delay_ms = 3000, callback = ClearEmployeeMessage\<rparr>] \<and>
   employeeMessage (fst (fire_timer 0 (fst (handleSaveEmployee Written (onChange_fullName [] (fst (handleSaveEmployee Written saved_state))))))) = None"
  using C4_timer_clears_any_message [of saved_state 0
      "fst (handleSaveEmployee Written
         (onChange_fullName [] (fst (handleSaveEmployee Written saved_state))))"]
  by (simp add: saved_state_def initial_state_def onChange_fullName_def js_def trim_def
      is_white_space_def handleSaveEmployee_def)

text \<open>
  C4 as stated fails: a save succeeds, the name is then emptied and saved
  again, which displays the name error; when the timer of the first save
  fires, that error message is no longer displayed.
\<close>

theorem C4_counterexample:
  "employeeMessage (fst (handleSaveEmployee Written saved_state)) =
     Some \<lparr>msg_type = Success, msg_text = TEXT_SAVED\<rparr> \<and>
   employeeMessage (fst (handleSaveEmployee Written (onChange_fullName [] (fst (handleSaveEmployee Written saved_state))))) =
     Some \<lparr>msg_type = Error, msg_text = TEXT_ENTER_FULL_NAME\<rparr> \<and>
   employeeMessage (fst (fire_timer 0
      (fst (handleSaveEmployee Written (onChange_fullName [] (fst (handleSaveEmployee Written saved_state))))))) \<noteq>
     Some \<lparr>msg_type = Error, msg_text = TEXT_ENTER_FULL_NAME\<rparr>"
  by (simp add: saved_state_def initial_state_def onChange_fullName_def js_def trim_def
      is_white_space_def handleSaveEmployee_def fire_timer_def)

text \<open>
  C10. After a successful save, the storage holds the trimmed pair while the
  employee held in memory is the one that was typed. A submission that then
  passes validation posts the typed name and number, and the history query
  filters on the typed number. When an input carries surrounding white
  space, the stored record differs from the employee in memory.
\<close>

theorem C10_memory_keeps_untrimmed_identity:
  assumes "trim (fullName (employee s)) \<noteq> []" and "trim (employeeId (employee s)) \<noteq> []"
  shows "localStorage (fst (handleSaveEmployee Written s)) STORAGE_KEY =
           Some \<lparr>fullName = trim (fullName (employee s)),
                 employeeId = trim (employeeId (employee s))\<rparr> \<and>
         employee (fst (handleSaveEmployee Written s)) = employee s \<and>
         ((f = None \<longrightarrow> trim c \<noteq> []) \<and>
          (\<forall>g. f = Some g \<longrightarrow> file_type g \<in> set ALLOWED_FILE_TYPES) \<longrightarrow>
            snd (handleSubmitExpense_begin
                 ((fst (handleSaveEmployee Written s))\<lparr>comment := c, selectedFile := f\<rparr>)) =
              Some \<lparr>url = N8N_WEBHOOK_URL, http_method = js ''POST'',
                    form_full_name = fullName (employee s),
                    form_employee_id = employeeId (employee s),
                    form_comment = trim c, form_receipt_file = f\<rparr>) \<and>
         snd (fetchExpenseHistory_begin (isEmployeeSaved (fst (handleSaveEmployee Written s)))
                (employee (fst (handleSaveEmployee Written s))) (fst (handleSaveEmployee Written s))) =
           Some \<lparr>from_table = js ''expenses'', select_columns = js ''*'',
                 eq_employee_id = employeeId (employee s), order_column = js ''created_at'',
                 ascending = False\<rparr> \<and>
         (trim (fullName (employee s)) \<noteq> fullName (employee s) \<or>
          trim (employeeId (employee s)) \<noteq> employeeId (employee s) \<longrightarrow>
            localStorage (fst (handleSaveEmployee Written s)) STORAGE_KEY \<noteq>
              Some (employee (fst (handleSaveEmployee Written s))))"
proof -
  from assms have ne: "fullName (employee s) \<noteq> []" "employeeId (employee s) \<noteq> []"
    using trim_Nil by auto
  have saved: "fst (handleSaveEmployee Written s) =
      s\<lparr>localStorage := (localStorage s)(STORAGE_KEY \<mapsto>
            \<lparr>fullName = trim (fullName (employee s)),
             employeeId = trim (employeeId (employee s))\<rparr>),
        isEmployeeSaved := True,
        employeeMessage := Some \<lparr>msg_type = Success, msg_text = TEXT_SAVED\<rparr>,
        timers := timers s @ [\<lparr>delay_ms = 3000, callback = ClearEmployeeMessage\<rparr>]\<rparr>"
    using assms by (simp add: handleSaveEmployee_def)
  have stored: "localStorage (fst (handleSaveEmployee Written s)) STORAGE_KEY =
           Some \<lparr>fullName = trim (fullName (employee s)),
                 employeeId = trim (employeeId (employee s))\<rparr>"
    by (simp add: saved)
  have kept: "employee (fst (handleSaveEmployee Written s)) = employee s"
    by (simp add: saved)
  have post: "(f = None \<longrightarrow> trim c \<noteq> []) \<and>
          (\<forall>g. f = Some g \<longrightarrow> file_type g \<in> set ALLOWED_FILE_TYPES) \<longrightarrow>
            snd (handleSubmitExpense_begin
                 ((fst (handleSaveEmployee Written s))\<lparr>comment := c, selectedFile := f\<rparr>)) =
              Some \<lparr>url = N8N_WEBHOOK_URL, http_method = js ''POST'',
                    form_full_name = fullName (employee s),
                    form_employee_id = employeeId (employee s),
                    form_comment = trim c, form_receipt_file = f\<rparr>"
    using ne by (cases f) (simp_all add: saved handleSubmitExpense_begin_def)
  have query: "snd (fetchExpenseHistory_begin (isEmployeeSaved (fst (handleSaveEmployee Written s)))
                (employee (fst (handleSaveEmployee Written s))) (fst (handleSaveEmployee Written s))) =
           Some \<lparr>from_table = js ''expenses'', select_columns = js ''*'',
                 eq_employee_id = employeeId (employee s), order_column = js ''created_at'',
                 ascending = False\<rparr>"
    using ne by (simp add: saved fetchExpenseHistory_begin_def)
  have differ: "trim (fullName (employee s)) \<noteq> fullName (employee s) \<or>
          trim (employeeId (employee s)) \<noteq> employeeId (employee s) \<longrightarrow>
            localStorage (fst (handleSaveEmployee Written s)) STORAGE_KEY \<noteq>
              Some (employee (fst (handleSaveEmployee Written s)))"
  proof -
    have "\<lparr>fullName = trim (fullName (employee s)),
                 employeeId = trim (employeeId (employee s))\<rparr> = employee s \<Longrightarrow>
       trim (fullName (employee s)) = fullName (employee s) \<and>
       trim (employeeId (employee s)) = employeeId (employee s)"
      by (cases "employee s") simp
    then show ?thesis
      unfolding stored kept by auto
  qed
  from stored kept post query differ show ?thesis
    by (intro conjI)
qed

theorem C10_memory_keeps_untrimmed_identity_witness:
  "localStorage (fst (handleSaveEmployee Written (onChange_employeeId (js '' E1 '')
       (onChange_fullName (js '' Ivan '') initial_state)))) STORAGE_KEY =
     Some \<lparr>fullName = js ''Ivan'', employeeId = js ''E1''\<rparr> \<and>
   snd (handleSubmitExpense_begin ((fst (handleSaveEmployee Written (onChange_employeeId (js '' E1 '')
       (onChange_fullName (js '' Ivan '') initial_state))))\<lparr>comment := js ''taxi'', selectedFile := None\<rparr>)) =
     Some \<lparr>url = N8N_WEBHOOK_URL, http_method = js ''POST'', form_full_name = js '' Ivan '',
           form_employee_id = js '' E1 '', form_comment = js ''taxi'', form_receipt_file = None\<rparr> \<and>
   snd (fetchExpenseHistory_begin True \<lparr>fullName = js '' Ivan '', employeeId = js '' E1 ''\<rparr>
      (fst (handleSaveEmployee Written (onChange_employeeId (js '' E1 '')
       (onChange_fullName (js '' Ivan '') initial_state))))) =
     Some \<lparr>from_table = js ''expenses'', select_columns = js ''*'',
           eq_employee_id = js '' E1 '', order_column = js ''created_at'', ascending = False\<rparr>"
proof -
  have name: "trim (fullName (employee (onChange_employeeId (js '' E1 '')
       (onChange_fullName (js '' Ivan '') initial_state)))) \<noteq> []"
    by (simp add: initial_state_def onChange_fullName_def onChange_employeeId_def js_def
        trim_def is_white_space_def)
  have number: "trim (employeeId (employee (onChange_employeeId (js '' E1 '')
       (onChange_fullName (js '' Ivan '') initial_state)))) \<noteq> []"
    by (simp add: initial_state_def onChange_fullName_def onChange_employeeId_def js_def
        trim_def is_white_space_def)
  show ?thesis
    using C10_memory_keeps_untrimmed_identity [OF name number, of None "js ''taxi''"]
    by (simp add: initial_state_def onChange_fullName_def onChange_employeeId_def js_def
        trim_def is_white_space_def handleSaveEmployee_def)
qed

section \<open>The history\<close>




end
